theory Spec2Isabelle
  imports Complex_Main
begin

section \<open>JavaScript numbers\<close>

text \<open>
  The handlers of \<^verbatim>\<open>server.js\<close> compute with JavaScript numbers, which are
  binary64 values. A finite number is modelled by the rational it is equal to;
  beside it stand the three special values. Sums, products, quotients and parsed
  literals are rounded as IEEE 754 prescribes: to the nearest double, a tie going
  to the even significand, a magnitude of \<open>2 ^ 1024\<close> or more after rounding
  becoming an infinity, with gradual underflow below \<open>2 ^ - 1022\<close>. One thing is
  left out, the sign of zero: \<^verbatim>\<open>-0\<close> and \<^verbatim>\<open>0\<close> are the same value (both are
  falsy, and the handlers never divide by a computed zero).
\<close>

datatype jsnum = NaN | Finite rat | PosInf | NegInf

text \<open>The integer part of the binary logarithm of a positive integer.\<close>

fun ilog2 :: "nat \<Rightarrow> nat" where
  "ilog2 n = (if n < 2 then 0 else Suc (ilog2 (n div 2)))"

declare ilog2.simps [simp del]

text \<open>
  The binary exponent of a positive rational \<open>a\<close>: the \<open>e\<close> with
  \<open>2 ^ e \<le> a < 2 ^ (e + 1)\<close>.
\<close>

definition exponent64 :: "rat \<Rightarrow> int" where
  "exponent64 a =
     (if 1 \<le> a then int (ilog2 (nat \<lfloor>a\<rfloor>))
      else - int (Suc (ilog2 (nat \<lceil>1 / a\<rceil> - 1))))"

definition pow2 :: "int \<Rightarrow> rat" where
  "pow2 k = (if 0 \<le> k then 2 ^ nat k else 1 / 2 ^ nat (- k))"

definition round_half_even :: "rat \<Rightarrow> int" where
  "round_half_even q =
     (let n = \<lfloor>q\<rfloor>; r = q - of_int n
      in if r < 1 / 2 then n else if 1 / 2 < r then n + 1
         else if even n then n else n + 1)"

text \<open>
  The double nearest to an exact result. The spacing of the doubles around \<open>x\<close>
  is \<open>2 ^ (e - 52)\<close> for the exponent \<open>e\<close> of \<open>x\<close>, and \<open>2 ^ - 1074\<close> for the
  subnormal ones.
\<close>

definition round64 :: "rat \<Rightarrow> jsnum" where
  "round64 x =
     (if x = 0 then Finite 0
      else
        (let a = \<bar>x\<bar>;
             u = pow2 (max (exponent64 a) (- 1022) - 52);
             r = of_int (round_half_even (a / u)) * u
         in if pow2 1024 \<le> r then (if x < 0 then NegInf else PosInf)
            else Finite (if x < 0 then - r else r)))"

fun js_neg :: "jsnum \<Rightarrow> jsnum" where
  "js_neg NaN = NaN"
| "js_neg (Finite a) = Finite (- a)"
| "js_neg PosInf = NegInf"
| "js_neg NegInf = PosInf"

fun js_add :: "jsnum \<Rightarrow> jsnum \<Rightarrow> jsnum" where
  "js_add (Finite a) (Finite b) = round64 (a + b)"
| "js_add NaN y = NaN"
| "js_add x NaN = NaN"
| "js_add PosInf NegInf = NaN"
| "js_add NegInf PosInf = NaN"
| "js_add PosInf y = PosInf"
| "js_add NegInf y = NegInf"
| "js_add (Finite a) y = y"

definition js_sub :: "jsnum \<Rightarrow> jsnum \<Rightarrow> jsnum" where
  "js_sub x y = js_add x (js_neg y)"

text \<open>The sign of a non-NaN number: \<open>True\<close> for a negative one.\<close>

fun js_negative :: "jsnum \<Rightarrow> bool" where
  "js_negative (Finite a) = (a < 0)"
| "js_negative NegInf = True"
| "js_negative x = False"

fun js_mul :: "jsnum \<Rightarrow> jsnum \<Rightarrow> jsnum" where
  "js_mul (Finite a) (Finite b) = round64 (a * b)"
| "js_mul NaN y = NaN"
| "js_mul x NaN = NaN"
| "js_mul x y =
     (if x = Finite 0 \<or> y = Finite 0 then NaN
      else if js_negative x = js_negative y then PosInf else NegInf)"

fun js_div :: "jsnum \<Rightarrow> jsnum \<Rightarrow> jsnum" where
  "js_div (Finite a) (Finite b) =
     (if b = 0 then (if a = 0 then NaN else if a < 0 then NegInf else PosInf)
      else round64 (a / b))"
| "js_div NaN y = NaN"
| "js_div x NaN = NaN"
| "js_div (Finite a) y = Finite 0"
| "js_div x (Finite b) = (if js_negative x = (b < 0) then PosInf else NegInf)"
| "js_div x y = NaN"

text \<open>
  \<^verbatim>\<open>Math.round\<close>: the integer nearest to the argument, a tie going up. The
  result is exact: an integer next to a double is a double.
\<close>

fun Math_round :: "jsnum \<Rightarrow> jsnum" where
  "Math_round (Finite a) = Finite (of_int \<lfloor>a + 1 / 2\<rfloor>)"
| "Math_round x = x"

text \<open>The number that the literal \<^verbatim>\<open>0.4\<close> of line 165 denotes.\<close>

definition point_four :: jsnum where
  "point_four = round64 (2 / 5)"

text \<open>
  \<^verbatim>\<open>x || d\<close> on numbers: \<^verbatim>\<open>NaN\<close> and zero are falsy, every other number is
  truthy. On strings, \<^verbatim>\<open>undefined\<close> (an absent field) and the empty string are falsy.
\<close>

fun js_truthy :: "jsnum \<Rightarrow> bool" where
  "js_truthy NaN = False"
| "js_truthy (Finite a) = (a \<noteq> 0)"
| "js_truthy x = True"

definition js_or :: "jsnum \<Rightarrow> jsnum \<Rightarrow> jsnum" where
  "js_or x d = (if js_truthy x then x else d)"

fun js_or_str :: "string option \<Rightarrow> string \<Rightarrow> string" where
  "js_or_str None d = d"
| "js_or_str (Some s) d = (if s = [] then d else s)"

section \<open>Parsing: \<^verbatim>\<open>parseFloat\<close>, \<^verbatim>\<open>parseInt\<close>, \<^verbatim>\<open>path.parse\<close>\<close>

text \<open>
  A form field is a string, or absent (\<^verbatim>\<open>undefined\<close>). Both parsers first turn their
  argument into a string, so an absent field is parsed as the text \<^verbatim>\<open>undefined\<close>.
  A string is the list of the bytes of its UTF-8 form, as the field arrives.
\<close>

definition ToString :: "string option \<Rightarrow> string" where
  "ToString v = (case v of None \<Rightarrow> ''undefined'' | Some s \<Rightarrow> s)"

text \<open>
  The white space and line terminators that the parsers skip. Six are ASCII:
  tab, line feed, vertical tab, form feed, carriage return and space. The others
  are the code points U+00A0, U+1680, U+2000 to U+200A, U+2028, U+2029, U+202F,
  U+205F, U+3000 and U+FEFF, each two or three bytes long.
\<close>

definition is_space :: "char \<Rightarrow> bool" where
  "is_space c = ((of_char c :: nat) \<in> {9, 10, 11, 12, 13, 32})"

definition wide_space :: "string \<Rightarrow> nat" where
  "wide_space s =
     (case map of_char (take 3 s) of
        [a, b] \<Rightarrow> if a = (194 :: nat) \<and> b = 160 then 2 else 0
      | [a, b, c] \<Rightarrow>
          if a = 194 \<and> b = 160 then 2
          else if a = 225 \<and> b = 154 \<and> c = 128 then 3
          else if a = 226 \<and> b = 128 \<and> ((128 \<le> c \<and> c \<le> 138) \<or> c = 168 \<or> c = 169 \<or> c = 175)
            then 3
          else if a = 226 \<and> b = 129 \<and> c = 159 then 3
          else if a = 227 \<and> b = 128 \<and> c = 128 then 3
          else if a = 239 \<and> b = 187 \<and> c = 191 then 3
          else 0
      | _ \<Rightarrow> 0)"

fun strip_space :: "string \<Rightarrow> string" where
  "strip_space [] = []"
| "strip_space (c # r) =
     (if is_space c then strip_space r
      else if wide_space (c # r) = 0 then c # r
      else strip_space (drop (wide_space (c # r) - 1) r))"

definition is_digit :: "char \<Rightarrow> bool" where
  "is_digit c = (48 \<le> (of_char c :: nat) \<and> (of_char c :: nat) \<le> 57)"

definition digit_value :: "char \<Rightarrow> nat" where
  "digit_value c = of_char c - 48"

definition digits_value :: "string \<Rightarrow> nat" where
  "digits_value ds = foldl (\<lambda>n c. 10 * n + digit_value c) 0 ds"

text \<open>An optional sign: whether it is a minus, and the rest of the text.\<close>

fun take_sign :: "string \<Rightarrow> bool \<times> string" where
  "take_sign [] = (False, [])"
| "take_sign (c # cs) =
     (if c = CHR ''-'' then (True, cs) else if c = CHR ''+'' then (False, cs)
      else (False, c # cs))"

text \<open>
  The exponent part of a decimal literal, \<^verbatim>\<open>e\<close> or \<^verbatim>\<open>E\<close>, an optional sign and at
  least one digit; anything else is no exponent.
\<close>

definition exponent_part :: "string \<Rightarrow> int" where
  "exponent_part r =
     (case r of
        [] \<Rightarrow> 0
      | e # r' \<Rightarrow>
          if e = CHR ''e'' \<or> e = CHR ''E'' then
            (let (neg, r'') = take_sign r'; ds = takeWhile is_digit r''
             in if ds = [] then 0
                else if neg then - int (digits_value ds) else int (digits_value ds))
          else 0)"

definition scale10 :: "rat \<Rightarrow> int \<Rightarrow> rat" where
  "scale10 m e = (if 0 \<le> e then m * 10 ^ nat e else m / 10 ^ nat (- e))"

text \<open>
  \<^verbatim>\<open>parseFloat\<close>: leading white space is dropped, and the longest prefix that is a
  decimal literal (a sign, then \<^verbatim>\<open>Infinity\<close>, or digits with an optional fraction
  and exponent) gives the value, rounded to a double; with no such prefix the
  result is \<^verbatim>\<open>NaN\<close>.
\<close>

definition parseFloat :: "string option \<Rightarrow> jsnum" where
  "parseFloat v =
     (let (neg, u) = take_sign (strip_space (ToString v))
      in if take 8 u = ''Infinity'' then (if neg then NegInf else PosInf)
         else
           (let ip = takeWhile is_digit u;
                r1 = dropWhile is_digit u;
                (fp, r2) = (case r1 of
                              [] \<Rightarrow> ([], r1)
                            | c # r \<Rightarrow> if c = CHR ''.''
                                       then (takeWhile is_digit r, dropWhile is_digit r)
                                       else ([], r1))
            in if ip = [] \<and> fp = [] then NaN
               else
                 (let m = scale10 (of_nat (digits_value (ip @ fp)))
                            (exponent_part r2 - int (length fp))
                  in round64 (if neg then - m else m))))"

text \<open>
  \<^verbatim>\<open>parseInt\<close> with no radix: leading white space and a sign are dropped, a prefix
  \<^verbatim>\<open>0x\<close> or \<^verbatim>\<open>0X\<close> selects base 16, and the longest run of digits of the base gives
  the value, rounded to a double; with no digit the result is \<^verbatim>\<open>NaN\<close>.
\<close>

definition hex_value :: "char \<Rightarrow> nat option" where
  "hex_value c =
     (let n = (of_char c :: nat)
      in if 48 \<le> n \<and> n \<le> 57 then Some (n - 48)
         else if 97 \<le> n \<and> n \<le> 102 then Some (n - 87)
         else if 65 \<le> n \<and> n \<le> 70 then Some (n - 55)
         else None)"

definition is_hex :: "char \<Rightarrow> bool" where
  "is_hex c = (hex_value c \<noteq> None)"

definition hex_digits_value :: "string \<Rightarrow> nat" where
  "hex_digits_value ds =
     foldl (\<lambda>n c. 16 * n + (case hex_value c of None \<Rightarrow> 0 | Some d \<Rightarrow> d)) 0 ds"

definition parseInt :: "string option \<Rightarrow> jsnum" where
  "parseInt v =
     (let (neg, u) = take_sign (strip_space (ToString v));
          hex = (take 2 u = ''0x'' \<or> take 2 u = ''0X'');
          z = (if hex then takeWhile is_hex (drop 2 u) else takeWhile is_digit u)
      in if z = [] then NaN
         else
           (let n = (if hex then hex_digits_value z else digits_value z)
            in round64 (if neg then - of_nat n else of_nat n)))"

text \<open>
  \<^verbatim>\<open>path.parse(filename).name\<close> on a POSIX host: the last component of the path
  (trailing slashes ignored), without its extension. The extension starts at the
  last dot of the component, unless that dot is its first character or the
  component is \<^verbatim>\<open>..\<close>, which have none.
\<close>

definition path_base :: "string \<Rightarrow> string" where
  "path_base p =
     rev (takeWhile (\<lambda>c. c \<noteq> CHR ''/'') (dropWhile (\<lambda>c. c = CHR ''/'') (rev p)))"

definition path_name :: "string \<Rightarrow> string" where
  "path_name p =
     (let b = path_base p;
          ext = takeWhile (\<lambda>c. c \<noteq> CHR ''.'') (rev b);
          pre = rev (drop (length ext + 1) (rev b))
      in if length ext = length b \<or> pre = [] \<or> b = ''..'' then b else pre)"

text \<open>A non-negative integer as it appears in a template literal: its decimal digits.\<close>

definition digit_char :: "nat \<Rightarrow> char" where
  "digit_char d = ''0123456789'' ! d"

fun Number_toString :: "nat \<Rightarrow> string" where
  "Number_toString n =
     (if n < 10 then [digit_char n]
      else Number_toString (n div 10) @ [digit_char (n mod 10)])"

declare Number_toString.simps [simp del]

section \<open>The raster engine and the object store\<close>

text \<open>
  The handlers drive two libraries, \<^verbatim>\<open>sharp\<close> and the Cloudinary SDK, whose code is
  not part of the repository. A \<^verbatim>\<open>sharp\<close> pipeline is modelled as the data the
  handler passes to it: the constructor's argument and the chained operations, in
  order. What the libraries answer is a parameter \<open>env\<close> of every handler, about
  which nothing is assumed; an answer \<open>None\<close> is a rejected promise (or a throw).
  Every call is also appended to a log, so that a theorem can say which calls a
  handler made, and in which order.
\<close>

type_synonym bytes = "nat list"

datatype blend = Over | DestIn | Multiply | Screen

text \<open>
  An element of the array given to \<^verbatim>\<open>composite\<close>. The keys \<^verbatim>\<open>top\<close>, \<^verbatim>\<open>left\<close> and
  \<^verbatim>\<open>blend\<close> are optional in the source; \<^verbatim>\<open>sharp\<close> documents \<^verbatim>\<open>over\<close> as the blend
  of an element that has none.
\<close>

record layer =
  l_input :: bytes
  l_top :: "jsnum option"
  l_left :: "jsnum option"
  l_blend :: "blend option"


text \<open>
  The argument of \<^verbatim>\<open>sharp(...)\<close>: a file path, a buffer, or
  \<^verbatim>\<open>{ create: { width, height, channels, background } }\<close>.
\<close>

datatype source = Path string | Buffer bytes | Create jsnum jsnum nat string

text \<open>
  The chained operations the handlers use: \<^verbatim>\<open>resize(w, h)\<close>,
  \<^verbatim>\<open>resize({ width })\<close>, \<^verbatim>\<open>composite([...])\<close>, \<^verbatim>\<open>threshold()\<close>, \<^verbatim>\<open>negate()\<close>,
  \<^verbatim>\<open>png()\<close>, \<^verbatim>\<open>toFormat(name)\<close> and \<^verbatim>\<open>jpeg({ quality })\<close>.
\<close>

datatype op =
    Resize jsnum jsnum
  | ResizeWidth jsnum
  | Composite "layer list"
  | Threshold
  | Negate
  | Png
  | ToFormat string
  | Jpeg nat

record image_metadata =
  width :: nat
  height :: nat

text \<open>
  The calls that leave the process: \<^verbatim>\<open>toBuffer()\<close> and \<^verbatim>\<open>metadata()\<close> of a
  pipeline, and \<^verbatim>\<open>cloudinary.uploader.upload_stream\<close> with its folder, public id
  and the bytes written to the stream.
\<close>

datatype call =
    ToBuffer source "op list"
  | Metadata source
  | UploadStream string string bytes

text \<open>
  The environment: the two answers of \<^verbatim>\<open>sharp\<close>, the answer of Cloudinary (the
  \<^verbatim>\<open>secure_url\<close> of the result, or an error), and the clock. \<open>Date_now env n\<close> is
  what \<^verbatim>\<open>Date.now()\<close> returns when the log holds \<open>n\<close> calls.
\<close>

record env =
  sharp_toBuffer :: "source \<Rightarrow> op list \<Rightarrow> bytes option"
  sharp_metadata :: "source \<Rightarrow> image_metadata option"
  cloudinary_upload :: "string \<Rightarrow> string \<Rightarrow> bytes \<Rightarrow> string option"
  Date_now :: "nat \<Rightarrow> nat"

text \<open>
  A promise-returning computation takes the log and returns its outcome and the
  longer log. \<open>await m k\<close> is \<^verbatim>\<open>const x = await m; k(x)\<close> inside a \<^verbatim>\<open>try\<close> block: a
  rejection skips the rest of the block.
\<close>

type_synonym 'a io = "call list \<Rightarrow> 'a option \<times> call list"

definition await :: "'a io \<Rightarrow> ('a \<Rightarrow> 'b io) \<Rightarrow> 'b io" where
  "await m k tr = (case m tr of (None, tr') \<Rightarrow> (None, tr') | (Some x, tr') \<Rightarrow> k x tr')"

definition resolve :: "'a \<Rightarrow> 'a io" where
  "resolve x tr = (Some x, tr)"

definition toBuffer :: "env \<Rightarrow> source \<Rightarrow> op list \<Rightarrow> bytes io" where
  "toBuffer env src ops tr = (sharp_toBuffer env src ops, tr @ [ToBuffer src ops])"

definition metadata :: "env \<Rightarrow> source \<Rightarrow> image_metadata io" where
  "metadata env src tr = (sharp_metadata env src, tr @ [Metadata src])"

text \<open>
  \<^verbatim>\<open>Promise.all([p, q])\<close> of two calls: both calls are made, whatever the first
  answers, and the result is the pair of answers if both are fulfilled, a
  rejection otherwise.
\<close>

definition Promise_all :: "'a io \<Rightarrow> 'b io \<Rightarrow> ('a \<times> 'b) io" where
  "Promise_all p q tr =
     (case p tr of (r1, tr1) \<Rightarrow>
        (case q tr1 of (r2, tr2) \<Rightarrow>
           (case r1 of
              None \<Rightarrow> (None, tr2)
            | Some a \<Rightarrow> (case r2 of None \<Rightarrow> (None, tr2) | Some b \<Rightarrow> (Some (a, b), tr2)))))"

definition num :: "nat \<Rightarrow> jsnum" where
  "num n = Finite (of_nat n)"

subsection \<open>\<^verbatim>\<open>uploadToCloudinary\<close> (lines 27 to 43)\<close>

definition public_id :: "nat \<Rightarrow> string \<Rightarrow> string" where
  "public_id now filename = Number_toString now @ ''-'' @ path_name filename"

definition uploadToCloudinary :: "env \<Rightarrow> bytes \<Rightarrow> string \<Rightarrow> string io" where
  "uploadToCloudinary env buffer filename tr =
     (let folder = ''tote-bag-designs'';
          pid = public_id (Date_now env (length tr)) filename
      in (cloudinary_upload env folder pid buffer, tr @ [UploadStream folder pid buffer]))"

section \<open>The three handlers\<close>

text \<open>
  What the excluded layers hand to a handler: \<^verbatim>\<open>req.file\<close>, set by the multipart
  parser when the form has a \<^verbatim>\<open>logoFile\<close> part, and the four text fields of
  \<^verbatim>\<open>req.body\<close> that the handlers read.
\<close>

record multer_file =
  buffer :: bytes
  originalname :: string

record request =
  "file" :: "multer_file option"
  body_color :: "string option"
  body_logoX :: "string option"
  body_logoY :: "string option"
  body_logoWidth :: "string option"

text \<open>
  What a handler sends: a status with the \<^verbatim>\<open>details\<close> text of its JSON body, the
  image bytes with content type \<^verbatim>\<open>image/jpeg\<close>, or the JSON of the publish
  use-case: \<^verbatim>\<open>mockupUrl\<close>, \<^verbatim>\<open>originalLogoUrl\<close>, and the \<^verbatim>\<open>config\<close> object with
  \<^verbatim>\<open>color\<close>, \<^verbatim>\<open>logoX\<close>, \<^verbatim>\<open>logoY\<close> and \<^verbatim>\<open>logoWidth\<close>.
\<close>

datatype response =
    Status nat string
  | Image bytes
  | Published string string string jsnum jsnum jsnum

text \<open>
  The object \<^verbatim>\<open>config\<close> of a handler. Its field \<^verbatim>\<open>logoWidth\<close> keeps the name;
  the handler's local constant \<^verbatim>\<open>logoWidth\<close> is written \<open>logoWidth'\<close>.
\<close>

record config =
  finalImageWidth :: jsnum
  logoWidth :: jsnum
  logoXOffset :: jsnum
  logoYOffset :: jsnum

subsection \<open>\<^verbatim>\<open>POST /generate\<close> (lines 102 to 150)\<close>

definition generate_config :: "jsnum \<Rightarrow> jsnum \<Rightarrow> jsnum \<Rightarrow> config" where
  "generate_config logoWidth' logoX logoY =
     \<lparr>finalImageWidth = Finite 2000, logoWidth = logoWidth',
      logoXOffset = logoX, logoYOffset = logoY\<rparr>"

definition generate_try ::
  "env \<Rightarrow> string \<Rightarrow> bytes \<Rightarrow> jsnum \<Rightarrow> jsnum \<Rightarrow> jsnum \<Rightarrow> bytes io" where
  "generate_try env color logoBuffer logoX logoY logoWidth' =
     (let config = generate_config logoWidth' logoX logoY;
          backgroundAsset = ''assets/background.png'';
          bagBodyAsset = ''assets/bag-body-shape.png.png'';
          handlesAsset = ''assets/handles-shape.png.png'';
          shadowsAsset = ''assets/tote-shadows.png.png'';
          highlightsAsset = ''assets/tote-highlights.png.png''
      in
      await (metadata env (Path backgroundAsset)) (\<lambda>baseMetadata.
      let finalImageHeight =
            Math_round (js_mul (num (height baseMetadata))
              (js_div (finalImageWidth config) (num (width baseMetadata))))
      in
      await (toBuffer env (Path backgroundAsset)
               [Resize (finalImageWidth config) finalImageHeight]) (\<lambda>cleanBackgroundBuffer.
      await (toBuffer env (Create (finalImageWidth config) finalImageHeight 4 color)
               [Png]) (\<lambda>solidColorCanvas.
      await (toBuffer env (Path bagBodyAsset)
               [Resize (finalImageWidth config) finalImageHeight]) (\<lambda>bagBodyMask.
      await (toBuffer env (Buffer solidColorCanvas)
               [Composite [\<lparr>l_input = bagBodyMask, l_top = None, l_left = None,
                             l_blend = Some DestIn\<rparr>]]) (\<lambda>coloredBagBody.
      await (toBuffer env (Path handlesAsset)
               [Resize (finalImageWidth config) finalImageHeight, Threshold, Negate])
            (\<lambda>handlesMask.
      await (toBuffer env (Buffer solidColorCanvas)
               [Composite [\<lparr>l_input = handlesMask, l_top = None, l_left = None,
                             l_blend = Some DestIn\<rparr>]]) (\<lambda>coloredHandles.
      await (toBuffer env (Buffer coloredBagBody)
               [Composite [\<lparr>l_input = coloredHandles, l_top = None, l_left = None,
                             l_blend = None\<rparr>]]) (\<lambda>coloredFullBag.
      await (toBuffer env (Buffer logoBuffer) [ResizeWidth (logoWidth config)])
            (\<lambda>resizedLogo.
      await (metadata env (Buffer resizedLogo)) (\<lambda>logoMetadata.
      let logoTop =
            Math_round (js_add (js_sub (js_div finalImageHeight (Finite 2))
                                       (js_div (num (height logoMetadata)) (Finite 2)))
                               (logoYOffset config));
          logoLeft =
            Math_round (js_add (js_sub (js_div (finalImageWidth config) (Finite 2))
                                       (js_div (num (width logoMetadata)) (Finite 2)))
                               (logoXOffset config))
      in
      await (toBuffer env (Path shadowsAsset)
               [Resize (finalImageWidth config) finalImageHeight]) (\<lambda>shadows.
      await (toBuffer env (Path highlightsAsset)
               [Resize (finalImageWidth config) finalImageHeight]) (\<lambda>highlights.
      toBuffer env (Buffer cleanBackgroundBuffer)
        [Composite
           [\<lparr>l_input = coloredFullBag, l_top = None, l_left = None, l_blend = None\<rparr>,
            \<lparr>l_input = resizedLogo, l_top = Some logoTop, l_left = Some logoLeft,
             l_blend = None\<rparr>,
            \<lparr>l_input = shadows, l_top = None, l_left = None, l_blend = Some Multiply\<rparr>,
            \<lparr>l_input = highlights, l_top = None, l_left = None, l_blend = Some Screen\<rparr>],
         ToFormat ''jpeg'', Jpeg 95])))))))))))))"

definition generate :: "env \<Rightarrow> request \<Rightarrow> response \<times> call list" where
  "generate env req =
     (case file req of
        None \<Rightarrow> (Status 400 ''No logo file was uploaded.'', [])
      | Some f \<Rightarrow>
          (let color = js_or_str (body_color req) ''#FFFFFF'';
               logoBuffer = buffer f;
               logoX = js_or (parseFloat (body_logoX req)) (Finite 0);
               logoY = js_or (parseFloat (body_logoY req)) (Finite 175);
               logoWidth' = js_or (parseInt (body_logoWidth req)) (Finite 450)
           in case generate_try env color logoBuffer logoX logoY logoWidth' [] of
                (Some finalImageBuffer, tr) \<Rightarrow> (Image finalImageBuffer, tr)
              | (None, tr) \<Rightarrow>
                  (Status 500 ''An error occurred during image processing.'', tr)))"

subsection \<open>\<^verbatim>\<open>POST /preview\<close> (lines 155 to 203)\<close>

definition preview_config :: "jsnum \<Rightarrow> jsnum \<Rightarrow> jsnum \<Rightarrow> config" where
  "preview_config logoWidth' logoX logoY =
     \<lparr>finalImageWidth = Finite 800,
      logoWidth = Math_round (js_mul logoWidth' point_four),
      logoXOffset = Math_round (js_mul logoX point_four),
      logoYOffset = Math_round (js_mul logoY point_four)\<rparr>"

text \<open>
  The source reads \<^verbatim>\<open>color\<close> inside the \<^verbatim>\<open>try\<close> block, after the first
  \<^verbatim>\<open>metadata()\<close>; reading a field has no effect, so it is passed in like the others.
\<close>

definition preview_try ::
  "env \<Rightarrow> string \<Rightarrow> bytes \<Rightarrow> jsnum \<Rightarrow> jsnum \<Rightarrow> jsnum \<Rightarrow> bytes io" where
  "preview_try env color logoBuffer logoX logoY logoWidth' =
     (let config = preview_config logoWidth' logoX logoY;
          backgroundAsset = ''assets/background.png'';
          bagBodyAsset = ''assets/bag-body-shape.png.png'';
          handlesAsset = ''assets/handles-shape.png.png'';
          shadowsAsset = ''assets/tote-shadows.png.png'';
          highlightsAsset = ''assets/tote-highlights.png.png''
      in
      await (metadata env (Path backgroundAsset)) (\<lambda>baseMetadata.
      let finalImageHeight =
            Math_round (js_mul (num (height baseMetadata))
              (js_div (finalImageWidth config) (num (width baseMetadata))))
      in
      await (toBuffer env (Path backgroundAsset)
               [Resize (finalImageWidth config) finalImageHeight]) (\<lambda>cleanBackgroundBuffer.
      await (toBuffer env (Create (finalImageWidth config) finalImageHeight 4 color)
               [Png]) (\<lambda>solidColorCanvas.
      await (toBuffer env (Path bagBodyAsset)
               [Resize (finalImageWidth config) finalImageHeight]) (\<lambda>bagBodyMask.
      await (toBuffer env (Buffer solidColorCanvas)
               [Composite [\<lparr>l_input = bagBodyMask, l_top = None, l_left = None,
                             l_blend = Some DestIn\<rparr>]]) (\<lambda>coloredBagBody.
      await (toBuffer env (Path handlesAsset)
               [Resize (finalImageWidth config) finalImageHeight, Threshold, Negate])
            (\<lambda>handlesMask.
      await (toBuffer env (Buffer solidColorCanvas)
               [Composite [\<lparr>l_input = handlesMask, l_top = None, l_left = None,
                             l_blend = Some DestIn\<rparr>]]) (\<lambda>coloredHandles.
      await (toBuffer env (Buffer coloredBagBody)
               [Composite [\<lparr>l_input = coloredHandles, l_top = None, l_left = None,
                             l_blend = None\<rparr>]]) (\<lambda>coloredFullBag.
      await (toBuffer env (Buffer logoBuffer) [ResizeWidth (logoWidth config)])
            (\<lambda>resizedLogo.
      await (metadata env (Buffer resizedLogo)) (\<lambda>logoMetadata.
      let logoTop =
            Math_round (js_add (js_sub (js_div finalImageHeight (Finite 2))
                                       (js_div (num (height logoMetadata)) (Finite 2)))
                               (logoYOffset config));
          logoLeft =
            Math_round (js_add (js_sub (js_div (finalImageWidth config) (Finite 2))
                                       (js_div (num (width logoMetadata)) (Finite 2)))
                               (logoXOffset config))
      in
      await (toBuffer env (Path shadowsAsset)
               [Resize (finalImageWidth config) finalImageHeight]) (\<lambda>shadows.
      await (toBuffer env (Path highlightsAsset)
               [Resize (finalImageWidth config) finalImageHeight]) (\<lambda>highlights.
      toBuffer env (Buffer cleanBackgroundBuffer)
        [Composite
           [\<lparr>l_input = coloredFullBag, l_top = None, l_left = None, l_blend = None\<rparr>,
            \<lparr>l_input = resizedLogo, l_top = Some logoTop, l_left = Some logoLeft,
             l_blend = None\<rparr>,
            \<lparr>l_input = shadows, l_top = None, l_left = None, l_blend = Some Multiply\<rparr>,
            \<lparr>l_input = highlights, l_top = None, l_left = None, l_blend = Some Screen\<rparr>],
         ToFormat ''jpeg'', Jpeg 70])))))))))))))"

definition preview :: "env \<Rightarrow> request \<Rightarrow> response \<times> call list" where
  "preview env req =
     (case file req of
        None \<Rightarrow> (Status 400 ''No logo file was uploaded.'', [])
      | Some f \<Rightarrow>
          (let logoBuffer = buffer f;
               logoX = js_or (parseFloat (body_logoX req)) (Finite 0);
               logoY = js_or (parseFloat (body_logoY req)) (Finite 175);
               logoWidth' = js_or (parseInt (body_logoWidth req)) (Finite 450);
               color = js_or_str (body_color req) ''#FFFFFF''
           in case preview_try env color logoBuffer logoX logoY logoWidth' [] of
                (Some previewBuffer, tr) \<Rightarrow> (Image previewBuffer, tr)
              | (None, tr) \<Rightarrow>
                  (Status 500 ''An error occurred during preview generation.'', tr)))"

subsection \<open>\<^verbatim>\<open>POST /finalize-for-shopify\<close> (lines 209 to 276)\<close>

definition finalize_config :: "jsnum \<Rightarrow> jsnum \<Rightarrow> jsnum \<Rightarrow> config" where
  "finalize_config logoWidth' logoX logoY =
     \<lparr>finalImageWidth = Finite 2000, logoWidth = logoWidth',
      logoXOffset = logoX, logoYOffset = logoY\<rparr>"

text \<open>Step 1 of the handler: the final image.\<close>

definition finalize_render ::
  "env \<Rightarrow> string \<Rightarrow> bytes \<Rightarrow> jsnum \<Rightarrow> jsnum \<Rightarrow> jsnum \<Rightarrow> bytes io" where
  "finalize_render env color logoBuffer logoX logoY logoWidth' =
     (let config = finalize_config logoWidth' logoX logoY;
          backgroundAsset = ''assets/background.png'';
          bagBodyAsset = ''assets/bag-body-shape.png.png'';
          handlesAsset = ''assets/handles-shape.png.png'';
          shadowsAsset = ''assets/tote-shadows.png.png'';
          highlightsAsset = ''assets/tote-highlights.png.png''
      in
      await (metadata env (Path backgroundAsset)) (\<lambda>baseMetadata.
      let finalImageHeight =
            Math_round (js_mul (num (height baseMetadata))
              (js_div (finalImageWidth config) (num (width baseMetadata))))
      in
      await (toBuffer env (Path backgroundAsset)
               [Resize (finalImageWidth config) finalImageHeight]) (\<lambda>cleanBackgroundBuffer.
      await (toBuffer env (Create (finalImageWidth config) finalImageHeight 4 color)
               [Png]) (\<lambda>solidColorCanvas.
      await (toBuffer env (Path bagBodyAsset)
               [Resize (finalImageWidth config) finalImageHeight]) (\<lambda>bagBodyMask.
      await (toBuffer env (Buffer solidColorCanvas)
               [Composite [\<lparr>l_input = bagBodyMask, l_top = None, l_left = None,
                             l_blend = Some DestIn\<rparr>]]) (\<lambda>coloredBagBody.
      await (toBuffer env (Path handlesAsset)
               [Resize (finalImageWidth config) finalImageHeight, Threshold, Negate])
            (\<lambda>handlesMask.
      await (toBuffer env (Buffer solidColorCanvas)
               [Composite [\<lparr>l_input = handlesMask, l_top = None, l_left = None,
                             l_blend = Some DestIn\<rparr>]]) (\<lambda>coloredHandles.
      await (toBuffer env (Buffer coloredBagBody)
               [Composite [\<lparr>l_input = coloredHandles, l_top = None, l_left = None,
                             l_blend = None\<rparr>]]) (\<lambda>coloredFullBag.
      await (toBuffer env (Buffer logoBuffer) [ResizeWidth (logoWidth config)])
            (\<lambda>resizedLogo.
      await (metadata env (Buffer resizedLogo)) (\<lambda>logoMetadata.
      let logoTop =
            Math_round (js_add (js_sub (js_div finalImageHeight (Finite 2))
                                       (js_div (num (height logoMetadata)) (Finite 2)))
                               (logoYOffset config));
          logoLeft =
            Math_round (js_add (js_sub (js_div (finalImageWidth config) (Finite 2))
                                       (js_div (num (width logoMetadata)) (Finite 2)))
                               (logoXOffset config))
      in
      await (toBuffer env (Path shadowsAsset)
               [Resize (finalImageWidth config) finalImageHeight]) (\<lambda>shadows.
      await (toBuffer env (Path highlightsAsset)
               [Resize (finalImageWidth config) finalImageHeight]) (\<lambda>highlights.
      toBuffer env (Buffer cleanBackgroundBuffer)
        [Composite
           [\<lparr>l_input = coloredFullBag, l_top = None, l_left = None, l_blend = None\<rparr>,
            \<lparr>l_input = resizedLogo, l_top = Some logoTop, l_left = Some logoLeft,
             l_blend = None\<rparr>,
            \<lparr>l_input = shadows, l_top = None, l_left = None, l_blend = Some Multiply\<rparr>,
            \<lparr>l_input = highlights, l_top = None, l_left = None, l_blend = Some Screen\<rparr>],
         ToFormat ''jpeg'', Jpeg 95])))))))))))))"

text \<open>Steps 2 and 3: both uploads, then the JSON with the two URLs and the values used.\<close>

definition finalize_try ::
  "env \<Rightarrow> multer_file \<Rightarrow> string \<Rightarrow> bytes \<Rightarrow> jsnum \<Rightarrow> jsnum \<Rightarrow> jsnum \<Rightarrow> response io" where
  "finalize_try env f color logoBuffer logoX logoY logoWidth' =
     await (finalize_render env color logoBuffer logoX logoY logoWidth') (\<lambda>finalImageBuffer.
     await (Promise_all (uploadToCloudinary env finalImageBuffer ''mockup.jpg'')
                        (uploadToCloudinary env (buffer f) (originalname f)))
           (\<lambda>(mockupUrl, originalLogoUrl).
     resolve (Published mockupUrl originalLogoUrl color logoX logoY logoWidth')))"

definition finalize_for_shopify :: "env \<Rightarrow> request \<Rightarrow> response \<times> call list" where
  "finalize_for_shopify env req =
     (case file req of
        None \<Rightarrow> (Status 400 ''No logo file was uploaded.'', [])
      | Some f \<Rightarrow>
          (let color = js_or_str (body_color req) ''#FFFFFF'';
               logoBuffer = buffer f;
               logoX = js_or (parseFloat (body_logoX req)) (Finite 0);
               logoY = js_or (parseFloat (body_logoY req)) (Finite 175);
               logoWidth' = js_or (parseInt (body_logoWidth req)) (Finite 450)
           in case finalize_try env f color logoBuffer logoX logoY logoWidth' [] of
                (Some json, tr) \<Rightarrow> (json, tr)
              | (None, tr) \<Rightarrow>
                  (Status 500
                     ''An error occurred while preparing your design for the cart.'', tr)))"

text \<open>The routes of the application.\<close>

datatype endpoint = Generate | Preview | Finalize

fun handle :: "endpoint \<Rightarrow> env \<Rightarrow> request \<Rightarrow> response \<times> call list" where
  "handle Generate env req = generate env req"
| "handle Preview env req = preview env req"
| "handle Finalize env req = finalize_for_shopify env req"

section \<open>The text the three handlers share\<close>

text \<open>
  The three \<^verbatim>\<open>try\<close> blocks are one text, copied: they differ in the \<^verbatim>\<open>config\<close>
  object and in the JPEG quality. \<open>pipeline\<close> is that text with the two as
  parameters; that each handler runs it is proved below, from the three
  definitions above.
\<close>

definition pipeline ::
  "env \<Rightarrow> config \<Rightarrow> nat \<Rightarrow> string \<Rightarrow> bytes \<Rightarrow> bytes io" where
  "pipeline env config quality color logoBuffer =
     (let backgroundAsset = ''assets/background.png'';
          bagBodyAsset = ''assets/bag-body-shape.png.png'';
          handlesAsset = ''assets/handles-shape.png.png'';
          shadowsAsset = ''assets/tote-shadows.png.png'';
          highlightsAsset = ''assets/tote-highlights.png.png''
      in
      await (metadata env (Path backgroundAsset)) (\<lambda>baseMetadata.
      let finalImageHeight =
            Math_round (js_mul (num (height baseMetadata))
              (js_div (finalImageWidth config) (num (width baseMetadata))))
      in
      await (toBuffer env (Path backgroundAsset)
               [Resize (finalImageWidth config) finalImageHeight]) (\<lambda>cleanBackgroundBuffer.
      await (toBuffer env (Create (finalImageWidth config) finalImageHeight 4 color)
               [Png]) (\<lambda>solidColorCanvas.
      await (toBuffer env (Path bagBodyAsset)
               [Resize (finalImageWidth config) finalImageHeight]) (\<lambda>bagBodyMask.
      await (toBuffer env (Buffer solidColorCanvas)
               [Composite [\<lparr>l_input = bagBodyMask, l_top = None, l_left = None,
                             l_blend = Some DestIn\<rparr>]]) (\<lambda>coloredBagBody.
      await (toBuffer env (Path handlesAsset)
               [Resize (finalImageWidth config) finalImageHeight, Threshold, Negate])
            (\<lambda>handlesMask.
      await (toBuffer env (Buffer solidColorCanvas)
               [Composite [\<lparr>l_input = handlesMask, l_top = None, l_left = None,
                             l_blend = Some DestIn\<rparr>]]) (\<lambda>coloredHandles.
      await (toBuffer env (Buffer coloredBagBody)
               [Composite [\<lparr>l_input = coloredHandles, l_top = None, l_left = None,
                             l_blend = None\<rparr>]]) (\<lambda>coloredFullBag.
      await (toBuffer env (Buffer logoBuffer) [ResizeWidth (logoWidth config)])
            (\<lambda>resizedLogo.
      await (metadata env (Buffer resizedLogo)) (\<lambda>logoMetadata.
      let logoTop =
            Math_round (js_add (js_sub (js_div finalImageHeight (Finite 2))
                                       (js_div (num (height logoMetadata)) (Finite 2)))
                               (logoYOffset config));
          logoLeft =
            Math_round (js_add (js_sub (js_div (finalImageWidth config) (Finite 2))
                                       (js_div (num (width logoMetadata)) (Finite 2)))
                               (logoXOffset config))
      in
      await (toBuffer env (Path shadowsAsset)
               [Resize (finalImageWidth config) finalImageHeight]) (\<lambda>shadows.
      await (toBuffer env (Path highlightsAsset)
               [Resize (finalImageWidth config) finalImageHeight]) (\<lambda>highlights.
      toBuffer env (Buffer cleanBackgroundBuffer)
        [Composite
           [\<lparr>l_input = coloredFullBag, l_top = None, l_left = None, l_blend = None\<rparr>,
            \<lparr>l_input = resizedLogo, l_top = Some logoTop, l_left = Some logoLeft,
             l_blend = None\<rparr>,
            \<lparr>l_input = shadows, l_top = None, l_left = None, l_blend = Some Multiply\<rparr>,
            \<lparr>l_input = highlights, l_top = None, l_left = None, l_blend = Some Screen\<rparr>],
         ToFormat ''jpeg'', Jpeg quality])))))))))))))"


text \<open>
  The values a run of the pipeline goes through, under the names the source gives
  them (the two overlays have none there).
\<close>

record stages =
  baseMetadata :: image_metadata
  cleanBackgroundBuffer :: bytes
  solidColorCanvas :: bytes
  bagBodyMask :: bytes
  coloredBagBody :: bytes
  handlesMask :: bytes
  coloredHandles :: bytes
  coloredFullBag :: bytes
  resizedLogo :: bytes
  logoMetadata :: image_metadata
  shadows :: bytes
  highlights :: bytes

definition finalImageHeight :: "config \<Rightarrow> stages \<Rightarrow> jsnum" where
  "finalImageHeight cfg st =
     Math_round (js_mul (num (height (baseMetadata st)))
                        (js_div (finalImageWidth cfg) (num (width (baseMetadata st)))))"

definition logoTop :: "config \<Rightarrow> stages \<Rightarrow> jsnum" where
  "logoTop cfg st =
     Math_round (js_add (js_sub (js_div (finalImageHeight cfg st) (Finite 2))
                                (js_div (num (height (logoMetadata st))) (Finite 2)))
                        (logoYOffset cfg))"

definition logoLeft :: "config \<Rightarrow> stages \<Rightarrow> jsnum" where
  "logoLeft cfg st =
     Math_round (js_add (js_sub (js_div (finalImageWidth cfg) (Finite 2))
                                (js_div (num (width (logoMetadata st))) (Finite 2)))
                        (logoXOffset cfg))"

text \<open>An element of a \<^verbatim>\<open>composite\<close> array with no position.\<close>

definition plain :: "bytes \<Rightarrow> blend option \<Rightarrow> layer" where
  "plain b m = \<lparr>l_input = b, l_top = None, l_left = None, l_blend = m\<rparr>"

text \<open>The calls of a run that reaches its end, in order.\<close>

definition pipeline_calls :: "config \<Rightarrow> nat \<Rightarrow> string \<Rightarrow> bytes \<Rightarrow> stages \<Rightarrow> call list" where
  "pipeline_calls cfg q color logo st =
     (let w = finalImageWidth cfg; h = finalImageHeight cfg st in
      [Metadata (Path ''assets/background.png''),
       ToBuffer (Path ''assets/background.png'') [Resize w h],
       ToBuffer (Create w h 4 color) [Png],
       ToBuffer (Path ''assets/bag-body-shape.png.png'') [Resize w h],
       ToBuffer (Buffer (solidColorCanvas st))
         [Composite [plain (bagBodyMask st) (Some DestIn)]],
       ToBuffer (Path ''assets/handles-shape.png.png'') [Resize w h, Threshold, Negate],
       ToBuffer (Buffer (solidColorCanvas st))
         [Composite [plain (handlesMask st) (Some DestIn)]],
       ToBuffer (Buffer (coloredBagBody st)) [Composite [plain (coloredHandles st) None]],
       ToBuffer (Buffer logo) [ResizeWidth (logoWidth cfg)],
       Metadata (Buffer (resizedLogo st)),
       ToBuffer (Path ''assets/tote-shadows.png.png'') [Resize w h],
       ToBuffer (Path ''assets/tote-highlights.png.png'') [Resize w h],
       ToBuffer (Buffer (cleanBackgroundBuffer st))
         [Composite
            [plain (coloredFullBag st) None,
             \<lparr>l_input = resizedLogo st, l_top = Some (logoTop cfg st),
              l_left = Some (logoLeft cfg st), l_blend = None\<rparr>,
             plain (shadows st) (Some Multiply),
             plain (highlights st) (Some Screen)],
          ToFormat ''jpeg'', Jpeg q]])"

text \<open>
  What the engine answered on such a run: each stage is the answer to the call
  that the source assigns it from, and \<open>out\<close> is the answer to the last one.
\<close>

definition pipeline_ok ::
  "env \<Rightarrow> config \<Rightarrow> nat \<Rightarrow> string \<Rightarrow> bytes \<Rightarrow> stages \<Rightarrow> bytes \<Rightarrow> bool" where
  "pipeline_ok env cfg q color logo st out =
     (let w = finalImageWidth cfg; h = finalImageHeight cfg st in
      sharp_metadata env (Path ''assets/background.png'') = Some (baseMetadata st) \<and>
      sharp_toBuffer env (Path ''assets/background.png'') [Resize w h]
        = Some (cleanBackgroundBuffer st) \<and>
      sharp_toBuffer env (Create w h 4 color) [Png] = Some (solidColorCanvas st) \<and>
      sharp_toBuffer env (Path ''assets/bag-body-shape.png.png'') [Resize w h]
        = Some (bagBodyMask st) \<and>
      sharp_toBuffer env (Buffer (solidColorCanvas st))
          [Composite [plain (bagBodyMask st) (Some DestIn)]] = Some (coloredBagBody st) \<and>
      sharp_toBuffer env (Path ''assets/handles-shape.png.png'')
          [Resize w h, Threshold, Negate] = Some (handlesMask st) \<and>
      sharp_toBuffer env (Buffer (solidColorCanvas st))
          [Composite [plain (handlesMask st) (Some DestIn)]] = Some (coloredHandles st) \<and>
      sharp_toBuffer env (Buffer (coloredBagBody st))
          [Composite [plain (coloredHandles st) None]] = Some (coloredFullBag st) \<and>
      sharp_toBuffer env (Buffer logo) [ResizeWidth (logoWidth cfg)]
        = Some (resizedLogo st) \<and>
      sharp_metadata env (Buffer (resizedLogo st)) = Some (logoMetadata st) \<and>
      sharp_toBuffer env (Path ''assets/tote-shadows.png.png'') [Resize w h]
        = Some (shadows st) \<and>
      sharp_toBuffer env (Path ''assets/tote-highlights.png.png'') [Resize w h]
        = Some (highlights st) \<and>
      sharp_toBuffer env (Buffer (cleanBackgroundBuffer st))
          [Composite
             [plain (coloredFullBag st) None,
              \<lparr>l_input = resizedLogo st, l_top = Some (logoTop cfg st),
               l_left = Some (logoLeft cfg st), l_blend = None\<rparr>,
              plain (shadows st) (Some Multiply),
              plain (highlights st) (Some Screen)],
           ToFormat ''jpeg'', Jpeg q] = Some out)"

text \<open>
  Reading a log: the array of the first call that flattens and encodes (a
  \<^verbatim>\<open>composite\<close> followed by \<^verbatim>\<open>toFormat\<close> and \<^verbatim>\<open>jpeg\<close>), the position given to
  its second element, and the uploads.
\<close>

fun flatten_of :: "call \<Rightarrow> layer list option" where
  "flatten_of (ToBuffer src [Composite ls, ToFormat fmt, Jpeg q]) = Some ls"
| "flatten_of c = None"

definition final_flatten :: "call list \<Rightarrow> layer list" where
  "final_flatten tr = (case List.map_filter flatten_of tr of [] \<Rightarrow> [] | ls # r \<Rightarrow> ls)"

definition logo_position :: "call list \<Rightarrow> jsnum option \<times> jsnum option" where
  "logo_position tr =
     (case final_flatten tr of
        [bag, logo, sh, hl] \<Rightarrow> (l_top logo, l_left logo)
      | ls \<Rightarrow> (None, None))"

fun is_upload :: "call \<Rightarrow> bool" where
  "is_upload (UploadStream folder pid b) = True"
| "is_upload c = False"

fun is_success :: "response \<Rightarrow> bool" where
  "is_success (Status code details) = False"
| "is_success r = True"

section \<open>Vocabulary of the statements\<close>

text \<open>
  The values a handler computes from a request before it renders: the four lines
  that read \<^verbatim>\<open>req.body\<close>, which are the same in the three handlers.
\<close>

definition input_color :: "request \<Rightarrow> string" where
  "input_color req = js_or_str (body_color req) ''#FFFFFF''"

definition input_logoX :: "request \<Rightarrow> jsnum" where
  "input_logoX req = js_or (parseFloat (body_logoX req)) (Finite 0)"

definition input_logoY :: "request \<Rightarrow> jsnum" where
  "input_logoY req = js_or (parseFloat (body_logoY req)) (Finite 175)"

definition input_logoWidth :: "request \<Rightarrow> jsnum" where
  "input_logoWidth req = js_or (parseInt (body_logoWidth req)) (Finite 450)"

text \<open>
  The two tiers. The routes \<^verbatim>\<open>/generate\<close> and \<^verbatim>\<open>/finalize-for-shopify\<close> render at
  the Full tier, \<^verbatim>\<open>/preview\<close> at the Preview tier.
\<close>

fun tier_width :: "endpoint \<Rightarrow> jsnum" where
  "tier_width Preview = Finite 800"
| "tier_width ep = Finite 2000"

fun tier_quality :: "endpoint \<Rightarrow> nat" where
  "tier_quality Preview = 70"
| "tier_quality ep = 95"

fun tier_config :: "endpoint \<Rightarrow> request \<Rightarrow> config" where
  "tier_config Generate req =
     generate_config (input_logoWidth req) (input_logoX req) (input_logoY req)"
| "tier_config Preview req =
     preview_config (input_logoWidth req) (input_logoX req) (input_logoY req)"
| "tier_config Finalize req =
     finalize_config (input_logoWidth req) (input_logoX req) (input_logoY req)"

text \<open>
  The offset that enters the placement at a route: \<^verbatim>\<open>/preview\<close> scales the input
  by 0.4 and rounds it, the two Full-tier routes take the input as it is.
\<close>

fun tier_offset :: "endpoint \<Rightarrow> jsnum \<Rightarrow> jsnum" where
  "tier_offset Preview v = Math_round (js_mul v point_four)"
| "tier_offset ep v = v"

text \<open>
  The image a handler produced: the bytes it sent, or for the publish use-case
  the bytes of its first upload, the mockup.
\<close>

fun upload_bytes :: "call \<Rightarrow> bytes option" where
  "upload_bytes (UploadStream folder pid b) = Some b"
| "upload_bytes c = None"

fun output_image :: "response \<times> call list \<Rightarrow> bytes option" where
  "output_image (Image b, tr) = Some b"
| "output_image (Published u1 u2 c x y w, tr) =
     (case List.map_filter upload_bytes tr of [] \<Rightarrow> None | b # bs \<Rightarrow> Some b)"
| "output_image (Status code details, tr) = None"

text \<open>
  Placement as the handlers write it (lines 131 and 132, and their copies): the
  offset of the \<^verbatim>\<open>config\<close> object is added as it is.
\<close>

definition placement :: "jsnum \<Rightarrow> jsnum \<Rightarrow> jsnum \<Rightarrow> jsnum" where
  "placement canvas logo offset =
     Math_round (js_add (js_sub (js_div canvas (Finite 2)) (js_div logo (Finite 2))) offset)"

text \<open>
  Placement as the specification writes it, with the scale factor \<open>s\<close> of the
  tier: \<^verbatim>\<open>round(canvas/2 - logo/2 + round(offset * s))\<close>.
\<close>

definition spec_placement :: "jsnum \<Rightarrow> jsnum \<Rightarrow> jsnum \<Rightarrow> jsnum \<Rightarrow> jsnum" where
  "spec_placement canvas logo offset s =
     Math_round (js_add (js_sub (js_div canvas (Finite 2)) (js_div logo (Finite 2)))
                        (Math_round (js_mul offset s)))"

text \<open>
  What \<^verbatim>\<open>sharp\<close> documents about sizes, as conditions on an environment: a
  \<^verbatim>\<open>resize(w, h)\<close> that succeeds gives an image of exactly that size, and
  compositing and encoding keep the size of the base image.
\<close>

definition resize_exact :: "env \<Rightarrow> bool" where
  "resize_exact env =
     (\<forall>src w h b. sharp_toBuffer env src [Resize w h] = Some b \<longrightarrow>
        (\<exists>m. sharp_metadata env (Buffer b) = Some m \<and> num (width m) = w \<and> num (height m) = h))"

definition flatten_keeps_size :: "env \<Rightarrow> bool" where
  "flatten_keeps_size env =
     (\<forall>b ls fmt q out.
        sharp_toBuffer env (Buffer b) [Composite ls, ToFormat fmt, Jpeg q] = Some out \<longrightarrow>
        sharp_metadata env (Buffer out) = sharp_metadata env (Buffer b))"

text \<open>An environment in which no call fails.\<close>

definition answers_all :: "env \<Rightarrow> bool" where
  "answers_all env =
     ((\<forall>src ops. sharp_toBuffer env src ops \<noteq> None) \<and>
      (\<forall>src. sharp_metadata env src \<noteq> None) \<and>
      (\<forall>folder pid b. cloudinary_upload env folder pid b \<noteq> None))"

section \<open>Environments to run the handlers in\<close>

text \<open>
  \<open>sized_env d\<close> keeps of every image its size only: a buffer is the two numbers
  width and height, every asset has the size \<open>d\<close>, a resize to a size that is not
  a positive integer fails, and a resize to a width keeps the aspect ratio. Its
  uploads succeed and its clock stands still. In \<open>sizes_env\<close> the assets are 4000
  by 3000. \<open>accepting_env\<close> answers every call.
\<close>

fun as_size :: "jsnum \<Rightarrow> nat option" where
  "as_size (Finite a) = (if 0 < a \<and> a = of_int \<lfloor>a\<rfloor> then Some (nat \<lfloor>a\<rfloor>) else None)"
| "as_size x = None"

fun sized_source :: "nat \<times> nat \<Rightarrow> source \<Rightarrow> (nat \<times> nat) option" where
  "sized_source d (Path p) = Some d"
| "sized_source d (Buffer b) = (case b of [w, h] \<Rightarrow> Some (w, h) | _ \<Rightarrow> None)"
| "sized_source d (Create w h ch bg) =
     (case as_size w of
        None \<Rightarrow> None
      | Some a \<Rightarrow> (case as_size h of None \<Rightarrow> None | Some b \<Rightarrow> Some (a, b)))"

fun sizes_op :: "op \<Rightarrow> nat \<times> nat \<Rightarrow> (nat \<times> nat) option" where
  "sizes_op (Resize w h) d =
     (case as_size w of
        None \<Rightarrow> None
      | Some a \<Rightarrow> (case as_size h of None \<Rightarrow> None | Some b \<Rightarrow> Some (a, b)))"
| "sizes_op (ResizeWidth w) d =
     (case as_size w of
        None \<Rightarrow> None
      | Some a \<Rightarrow>
          if fst d = 0 then None
          else Some (a, nat \<lfloor>(of_nat (snd d) * of_nat a / of_nat (fst d) :: rat) + 1 / 2\<rfloor>))"
| "sizes_op x d = Some d"

fun sizes_ops :: "op list \<Rightarrow> nat \<times> nat \<Rightarrow> (nat \<times> nat) option" where
  "sizes_ops [] d = Some d"
| "sizes_ops (x # xs) d =
     (case sizes_op x d of None \<Rightarrow> None | Some d' \<Rightarrow> sizes_ops xs d')"

definition sized_toBuffer :: "nat \<times> nat \<Rightarrow> source \<Rightarrow> op list \<Rightarrow> bytes option" where
  "sized_toBuffer d0 src ops =
     (case sized_source d0 src of
        None \<Rightarrow> None
      | Some d \<Rightarrow>
          (case sizes_ops ops d of None \<Rightarrow> None | Some d' \<Rightarrow> Some [fst d', snd d']))"

definition sized_metadata :: "nat \<times> nat \<Rightarrow> source \<Rightarrow> image_metadata option" where
  "sized_metadata d0 src =
     (case sized_source d0 src of
        None \<Rightarrow> None
      | Some d \<Rightarrow> Some \<lparr>width = fst d, height = snd d\<rparr>)"

definition demo_url :: "string \<Rightarrow> string \<Rightarrow> bytes \<Rightarrow> string option" where
  "demo_url folder pid b = Some (''https://res.cloudinary.com/demo/'' @ folder @ ''/'' @ pid)"

definition sized_env :: "nat \<times> nat \<Rightarrow> env" where
  "sized_env d =
     \<lparr>sharp_toBuffer = sized_toBuffer d, sharp_metadata = sized_metadata d,
      cloudinary_upload = demo_url, Date_now = (\<lambda>n. 1700000000000)\<rparr>"

definition sizes_env :: env where
  "sizes_env = sized_env (4000, 3000)"

definition accepting_env :: env where
  "accepting_env =
     \<lparr>sharp_toBuffer = (\<lambda>src ops. Some [1, 1]),
      sharp_metadata = (\<lambda>src. Some \<lparr>width = 1, height = 1\<rparr>),
      cloudinary_upload = demo_url, Date_now = (\<lambda>n. 1700000000000)\<rparr>"

text \<open>A request with every field set, for a logo of 900 by 600.\<close>

definition demo_request :: request where
  "demo_request =
     \<lparr>file = Some \<lparr>buffer = [900, 600], originalname = ''logo.png''\<rparr>,
      body_color = Some ''#112233'', body_logoX = Some ''20'',
      body_logoY = Some ''-35.5'', body_logoWidth = Some ''300''\<rparr>"

text \<open>
  An environment like \<open>sizes_env\<close> in which the upload of the 900 by 600 logo
  fails, and the requests at which the statements below are evaluated.
\<close>

definition logo_upload_fails :: "string \<Rightarrow> string \<Rightarrow> bytes \<Rightarrow> string option" where
  "logo_upload_fails folder pid b = (if b = [900, 600] then None else demo_url folder pid b)"

definition failing_upload_env :: env where
  "failing_upload_env =
     \<lparr>sharp_toBuffer = sized_toBuffer (4000, 3000),
      sharp_metadata = sized_metadata (4000, 3000),
      cloudinary_upload = logo_upload_fails, Date_now = (\<lambda>n. 1700000000000)\<rparr>"

definition negative_width_request :: request where
  "negative_width_request =
     \<lparr>file = Some \<lparr>buffer = [900, 600], originalname = ''logo.png''\<rparr>,
      body_color = None, body_logoX = None, body_logoY = None,
      body_logoWidth = Some ''-5''\<rparr>"

definition zero_offsets_request :: request where
  "zero_offsets_request =
     \<lparr>file = Some \<lparr>buffer = [900, 600], originalname = ''logo.png''\<rparr>,
      body_color = None, body_logoX = Some ''0'', body_logoY = Some ''0'',
      body_logoWidth = None\<rparr>"

definition half_pixel_request :: request where
  "half_pixel_request =
     \<lparr>file = Some \<lparr>buffer = [902, 600], originalname = ''logo.png''\<rparr>,
      body_color = None, body_logoX = Some ''0.5'', body_logoY = None,
      body_logoWidth = Some ''451''\<rparr>"

definition off_canvas_request :: request where
  "off_canvas_request =
     \<lparr>file = Some \<lparr>buffer = [900, 600], originalname = ''logo.png''\<rparr>,
      body_color = None, body_logoX = Some ''-5000'', body_logoY = Some ''9000'',
      body_logoWidth = None\<rparr>"

definition mockup_named_request :: request where
  "mockup_named_request =
     \<lparr>file = Some \<lparr>buffer = [900, 600], originalname = ''mockup.jpg''\<rparr>,
      body_color = None, body_logoX = None, body_logoY = None, body_logoWidth = None\<rparr>"

text \<open>A computation that leaves the uploads of the log as they were.\<close>

definition no_upload :: "'a io \<Rightarrow> bool" where
  "no_upload m = (\<forall>tr. filter is_upload (snd (m tr)) = filter is_upload tr)"

section \<open>Arithmetic of the model\<close>

text \<open>The floor of a quotient of numerals, for evaluation by the simplifier.\<close>

lemma floor_rat_numeral:
  "\<lfloor>(numeral a :: rat) / numeral b\<rfloor> = numeral a div numeral b"
  using floor_divide_of_int_eq [of "numeral a" "numeral b", where ?'a = rat] by simp

lemma floor_rat_neg_numeral:
  "\<lfloor>- ((numeral a :: rat) / numeral b)\<rfloor> = - numeral a div numeral b"
  using floor_divide_of_int_eq [of "- numeral a" "numeral b", where ?'a = rat] by simp

lemma floor_rat_one:
  "\<lfloor>(1 :: rat) / numeral b\<rfloor> = 1 div numeral b"
  using floor_divide_of_int_eq [of 1 "numeral b", where ?'a = rat] by simp

lemmas floor_rat = floor_rat_numeral floor_rat_neg_numeral floor_rat_one

text \<open>Rounding to a double, for evaluation by the simplifier at numerals.\<close>

lemma ilog2_numeral:
  "ilog2 (numeral k) = (if (numeral k :: nat) < 2 then 0 else Suc (ilog2 (numeral k div 2)))"
  "ilog2 0 = 0" "ilog2 1 = 0" "ilog2 (Suc 0) = 0"
  by (simp_all add: ilog2.simps [of "numeral k"] ilog2.simps [of 0] ilog2.simps [of 1]
        ilog2.simps [of "Suc 0"])

lemma round64_zero: "round64 0 = Finite 0"
  by (simp add: round64_def)

text \<open>
  A value of at least 1 whose significand fits in 53 bits is a double: rounding
  leaves it as it is.
\<close>

lemma ilog2_bounds: "0 < n \<Longrightarrow> 2 ^ ilog2 n \<le> n \<and> n < 2 ^ Suc (ilog2 n)"
proof (induction n rule: ilog2.induct)
  case (1 n)
  show ?case
  proof (cases "n < 2")
    case True
    with "1.prems" have "n = 1" by simp
    then show ?thesis by (simp add: ilog2.simps [of "Suc 0"])
  next
    case False
    then have "0 < n div 2" by simp
    from "1.IH" [OF False this]
    have a: "2 ^ ilog2 (n div 2) \<le> n div 2" and b: "n div 2 < 2 ^ Suc (ilog2 (n div 2))"
      by simp_all
    have e: "ilog2 n = Suc (ilog2 (n div 2))"
      using False by (simp add: ilog2.simps [of n])
    from a have "2 * 2 ^ ilog2 (n div 2) \<le> n" by linarith
    moreover from b have "n < 2 * 2 ^ Suc (ilog2 (n div 2))" by linarith
    ultimately show ?thesis by (simp add: e)
  qed
qed

lemma round_half_even_int: "round_half_even (of_int n) = n"
  by (simp add: round_half_even_def)

lemma round64_exact:
  assumes x: "1 \<le> x" and m: "x * 2 ^ j = of_int m" and b: "m < 2 ^ 53"
  shows "round64 x = Finite x"
proof -
  define n where "n = nat \<lfloor>x\<rfloor>"
  define e where "e = ilog2 n"
  from x have fl: "1 \<le> \<lfloor>x\<rfloor>" by linarith
  then have n0: "0 < n" by (simp add: n_def)
  from ilog2_bounds [OF n0] have le: "2 ^ e \<le> n" by (simp add: e_def)
  from fl have "rat_of_nat n \<le> x" by (simp add: n_def)
  with le have "(2::rat) ^ e \<le> x"
    by (metis (mono_tags, opaque_lifting) of_nat_le_iff of_nat_numeral of_nat_power order_trans)
  then have "(2::rat) ^ e * 2 ^ j \<le> x * 2 ^ j" by simp
  with m have "(2::rat) ^ (e + j) \<le> of_int m" by (simp add: power_add)
  then have "(2::int) ^ (e + j) \<le> m"
    by (metis of_int_le_iff of_int_numeral of_int_power)
  with b have lt: "(2::int) ^ (e + j) < 2 ^ 53" by linarith
  have ej: "e + j < 53"
    by (rule power_less_imp_less_exp [of "2::int"]) (use lt in simp_all)
  define d where "d = 52 - e - j"
  from ej have d: "e + j + d = 52" by (simp add: d_def)
  have u: "pow2 (max (exponent64 x) (- 1022) - 52) = 1 / 2 ^ (j + d)"
  proof -
    have ex: "exponent64 x = int e" using x by (simp add: exponent64_def e_def n_def)
    have k: "max (int e) (- 1022) - 52 = - int (j + d)" using d by simp
    show ?thesis
    proof (cases "j + d = 0")
      case True
      then show ?thesis unfolding ex k by (simp add: pow2_def)
    next
      case False
      then have "\<not> 0 \<le> - int (j + d)" by linarith
      then show ?thesis unfolding ex k by (simp only: pow2_def if_False minus_minus nat_int)
    qed
  qed
  have q: "x / (1 / 2 ^ (j + d)) = of_int (m * 2 ^ d)"
    using m by (simp add: power_add mult.assoc [symmetric])
  have r: "of_int (round_half_even (x / (1 / 2 ^ (j + d)))) * (1 / 2 ^ (j + d)) = x"
    unfolding q round_half_even_int using m by (simp add: power_add field_simps)
  have "of_int m < (2::rat) ^ 53"
    using b by (metis of_int_less_iff of_int_numeral of_int_power)
  moreover have "x \<le> x * 2 ^ j" using x by (simp add: mult_le_cancel_left1)
  ultimately have "x < 2 ^ 53" using m by simp
  then have o: "\<not> pow2 1024 \<le> x"
    by (simp add: pow2_def not_le)
  from x have nz: "(x = 0) = False" and ax: "\<bar>x\<bar> = x" and nn: "(x < 0) = False"
    by simp_all
  from o have o': "(pow2 1024 \<le> x) = False" by simp
  show ?thesis
    unfolding round64_def Let_def by (simp only: nz ax nn u r o' if_False)
qed

lemma round64_neg: "round64 (- x) = js_neg (round64 x)"
  by (simp add: round64_def Let_def)

lemma round64_int:
  "numeral k < (9007199254740992 :: int) \<Longrightarrow> round64 (numeral k) = Finite (numeral k)"
  using round64_exact [of "numeral k" 0 "numeral k"] by simp

lemma round64_half:
  "(2 :: int) \<le> numeral k \<Longrightarrow> numeral k < (9007199254740992 :: int) \<Longrightarrow>
     round64 (numeral k / 2) = Finite (numeral k / 2)"
  using round64_exact [of "numeral k / 2" 1 "numeral k"] by simp

lemma round64_one: "round64 1 = Finite 1"
  using round64_exact [of 1 0 1] by simp

lemma round64_inexact:
  "numeral b \<noteq> (2 :: int) \<Longrightarrow>
     round64 (numeral a / numeral b) =
       (let a' = numeral a / numeral b;
            u = pow2 (max (exponent64 a') (- 1022) - 52);
            r = of_int (round_half_even (a' / u)) * u
        in if pow2 1024 \<le> r then PosInf else Finite r)"
  "round64 (1 / numeral b) =
       (let a' = 1 / numeral b;
            u = pow2 (max (exponent64 a') (- 1022) - 52);
            r = of_int (round_half_even (a' / u)) * u
        in if pow2 1024 \<le> r then PosInf else Finite r)"
  by (simp_all add: round64_def Let_def)

lemmas let_value =
  Let_def [of "numeral k"] Let_def [of "- numeral k"]
  Let_def [of "numeral a / numeral b"] Let_def [of "- (numeral a / numeral b)"]
  Let_def [of "1 / numeral b"] Let_def [of "- (1 / numeral b)"]
  Let_def [of 0] Let_def [of 1] Let_def [of "- 1"]
  Let_def [of "Finite x"] Let_def [of NaN] Let_def [of PosInf] Let_def [of NegInf]
  Let_def [of "c # cs"] Let_def [of "[]"] Let_def [of "(p, q)"]
  Let_def [of True] Let_def [of False]
  Let_def [of "\<lparr>finalImageWidth = w, logoWidth = lw, logoXOffset = dx, logoYOffset = dy\<rparr>"]
  for k a b x c cs p q w lw dx dy

lemmas round64_eval = round64_int round64_half round64_one round64_zero round64_neg
  round64_inexact exponent64_def pow2_def round_half_even_def let_value
  ilog2_numeral floor_rat ceiling_def

lemma point_four_value: "point_four = Finite (3602879701896397 / 9007199254740992)"
  by (simp add: point_four_def round64_eval)

lemma js_mul_commute: "js_mul x y = js_mul y x"
  by (cases x; cases y) (auto simp: mult.commute)

lemma tier_width_positive: "\<exists>b. tier_width ep = Finite b \<and> 0 < b"
  by (cases ep) simp_all

lemma tier_config_width: "finalImageWidth (tier_config ep req) = tier_width ep"
  by (cases ep) (simp_all add: generate_config_def preview_config_def finalize_config_def)

section \<open>The handlers run the shared pipeline\<close>

lemma generate_try_pipeline:
  "generate_try env color logo x y w = pipeline env (generate_config w x y) 95 color logo"
  by (simp add: generate_try_def pipeline_def Let_def)

lemma preview_try_pipeline:
  "preview_try env color logo x y w = pipeline env (preview_config w x y) 70 color logo"
  by (simp add: preview_try_def pipeline_def Let_def)

lemma finalize_render_pipeline:
  "finalize_render env color logo x y w = pipeline env (finalize_config w x y) 95 color logo"
  by (simp add: finalize_render_def pipeline_def Let_def)

lemma generate_run:
  "generate env req =
     (case file req of
        None \<Rightarrow> (Status 400 ''No logo file was uploaded.'', [])
      | Some f \<Rightarrow>
          (case pipeline env (tier_config Generate req) 95 (input_color req) (buffer f) [] of
             (Some b, tr) \<Rightarrow> (Image b, tr)
           | (None, tr) \<Rightarrow> (Status 500 ''An error occurred during image processing.'', tr)))"
  by (simp add: generate_def generate_try_pipeline input_color_def input_logoX_def
        input_logoY_def input_logoWidth_def Let_def split: option.splits)

lemma preview_run:
  "preview env req =
     (case file req of
        None \<Rightarrow> (Status 400 ''No logo file was uploaded.'', [])
      | Some f \<Rightarrow>
          (case pipeline env (tier_config Preview req) 70 (input_color req) (buffer f) [] of
             (Some b, tr) \<Rightarrow> (Image b, tr)
           | (None, tr) \<Rightarrow> (Status 500 ''An error occurred during preview generation.'', tr)))"
  by (simp add: preview_def preview_try_pipeline input_color_def input_logoX_def
        input_logoY_def input_logoWidth_def Let_def split: option.splits)

text \<open>The two uploads of the publish use-case, after a render that gave \<open>img\<close>.\<close>

lemma finalize_run:
  "finalize_for_shopify env req =
     (case file req of
        None \<Rightarrow> (Status 400 ''No logo file was uploaded.'', [])
      | Some f \<Rightarrow>
          (case pipeline env (tier_config Finalize req) 95 (input_color req) (buffer f) [] of
             (None, tr) \<Rightarrow>
               (Status 500 ''An error occurred while preparing your design for the cart.'', tr)
           | (Some img, tr) \<Rightarrow>
               (case Promise_all (uploadToCloudinary env img ''mockup.jpg'')
                       (uploadToCloudinary env (buffer f) (originalname f)) tr of
                  (None, tr') \<Rightarrow>
                    (Status 500
                       ''An error occurred while preparing your design for the cart.'', tr')
                | (Some (mockupUrl, originalLogoUrl), tr') \<Rightarrow>
                    (Published mockupUrl originalLogoUrl (input_color req) (input_logoX req)
                       (input_logoY req) (input_logoWidth req), tr'))))"
  by (simp add: finalize_for_shopify_def finalize_try_def finalize_render_pipeline
        input_color_def input_logoX_def input_logoY_def input_logoWidth_def Let_def
        await_def resolve_def split: option.splits prod.splits)

lemma handle_inputs:
  assumes "file r1 = file r2" "input_color r1 = input_color r2"
    "input_logoX r1 = input_logoX r2" "input_logoY r1 = input_logoY r2"
    "input_logoWidth r1 = input_logoWidth r2"
  shows "handle ep env r1 = handle ep env r2"
  using assms
  by (cases ep) (simp_all add: generate_run preview_run finalize_run split: option.splits prod.splits)

lemmas parse_defs = parseFloat_def parseInt_def ToString_def is_space_def wide_space_def
  is_digit_def exponent_part_def scale10_def digits_value_def digit_value_def js_or_def
  Let_def round64_eval

lemma parse_absent: "parseFloat None = NaN" "parseInt None = NaN"
  by (simp_all add: parse_defs)

lemma parse_defaults:
  "parseFloat (Some ''0'') = Finite 0" "parseFloat (Some ''175'') = Finite 175"
  "parseInt (Some ''450'') = Finite 450" "parseInt (Some ''0'') = Finite 0"
  by (simp_all add: parse_defs)

section \<open>Runs of the pipeline\<close>

lemma await_Some:
  "await m k tr = (Some y, tr') \<longleftrightarrow> (\<exists>x tr1. m tr = (Some x, tr1) \<and> k x tr1 = (Some y, tr'))"
  by (auto simp: await_def split: prod.splits option.splits)

lemma toBuffer_Some:
  "toBuffer env src ops tr = (Some b, tr') \<longleftrightarrow>
     sharp_toBuffer env src ops = Some b \<and> tr' = tr @ [ToBuffer src ops]"
  by (auto simp: toBuffer_def)

lemma metadata_Some:
  "metadata env src tr = (Some m, tr') \<longleftrightarrow>
     sharp_metadata env src = Some m \<and> tr' = tr @ [Metadata src]"
  by (auto simp: metadata_def)

lemma pipeline_Some:
  assumes "pipeline env cfg q color logo tr0 = (Some out, tr)"
  shows "\<exists>st. pipeline_ok env cfg q color logo st out \<and>
              tr = tr0 @ pipeline_calls cfg q color logo st"
proof -
  from assms obtain bm bg solid bmask body hmask handles bag rlogo lm sh hl where
    "pipeline_ok env cfg q color logo
       \<lparr>baseMetadata = bm, cleanBackgroundBuffer = bg, solidColorCanvas = solid,
        bagBodyMask = bmask, coloredBagBody = body, handlesMask = hmask,
        coloredHandles = handles, coloredFullBag = bag, resizedLogo = rlogo,
        logoMetadata = lm, shadows = sh, highlights = hl\<rparr> out \<and>
     tr = tr0 @ pipeline_calls cfg q color logo
       \<lparr>baseMetadata = bm, cleanBackgroundBuffer = bg, solidColorCanvas = solid,
        bagBodyMask = bmask, coloredBagBody = body, handlesMask = hmask,
        coloredHandles = handles, coloredFullBag = bag, resizedLogo = rlogo,
        logoMetadata = lm, shadows = sh, highlights = hl\<rparr>"
    unfolding pipeline_def pipeline_ok_def pipeline_calls_def plain_def logoTop_def
      logoLeft_def finalImageHeight_def Let_def await_Some toBuffer_Some metadata_Some
    by (simp del: ex_simps) blast
  then show ?thesis by blast
qed

text \<open>Whatever the engine answers, a run of the pipeline uploads nothing.\<close>

lemma no_upload_await:
  "no_upload m \<Longrightarrow> (\<And>x. no_upload (k x)) \<Longrightarrow> no_upload (await m k)"
  unfolding no_upload_def await_def
  by (auto split: prod.splits option.splits) (metis snd_conv)+

lemma no_upload_toBuffer: "no_upload (toBuffer env src ops)"
  by (simp add: no_upload_def toBuffer_def)

lemma no_upload_metadata: "no_upload (metadata env src)"
  by (simp add: no_upload_def metadata_def)

lemma no_upload_pipeline: "no_upload (pipeline env cfg q color logo)"
  unfolding pipeline_def Let_def
  by (intro no_upload_await no_upload_toBuffer no_upload_metadata)

lemma pipeline_uploads_nothing:
  "pipeline env cfg q color logo [] = (r, tr) \<Longrightarrow> filter is_upload tr = []"
  using no_upload_pipeline [of env cfg q color logo, unfolded no_upload_def, rule_format, of "[]"]
  by simp

lemma pipeline_answers:
  assumes "answers_all env"
  shows "\<exists>out tr. pipeline env cfg q color logo tr0 = (Some out, tr)"
proof -
  have b: "\<And>src ops tr. toBuffer env src ops tr
             = (Some (the (sharp_toBuffer env src ops)), tr @ [ToBuffer src ops])"
    using assms by (auto simp: answers_all_def toBuffer_def)
  have m: "\<And>src tr. metadata env src tr
             = (Some (the (sharp_metadata env src)), tr @ [Metadata src])"
    using assms by (auto simp: answers_all_def metadata_def)
  show ?thesis
    by (simp add: pipeline_def Let_def await_def b m)
qed

section \<open>Requests that succeed\<close>

lemma generate_success:
  assumes "is_success (fst (generate env req))"
  shows "\<exists>f st out. file req = Some f \<and>
           pipeline_ok env (tier_config Generate req) 95 (input_color req) (buffer f) st out \<and>
           generate env req
             = (Image out, pipeline_calls (tier_config Generate req) 95 (input_color req) (buffer f) st)"
proof (cases "file req")
  case None
  with assms show ?thesis by (simp add: generate_run)
next
  case (Some f)
  obtain r tr where p: "pipeline env (tier_config Generate req) 95 (input_color req) (buffer f) [] = (r, tr)"
    by (cases "pipeline env (tier_config Generate req) 95 (input_color req) (buffer f) []")
  with assms Some obtain out where r: "r = Some out"
    by (cases r) (simp_all add: generate_run)
  from pipeline_Some [OF p [unfolded r]] obtain st where
    "pipeline_ok env (tier_config Generate req) 95 (input_color req) (buffer f) st out"
    "tr = pipeline_calls (tier_config Generate req) 95 (input_color req) (buffer f) st"
    by auto
  with Some p r show ?thesis by (auto simp add: generate_run)
qed

lemma preview_success:
  assumes "is_success (fst (preview env req))"
  shows "\<exists>f st out. file req = Some f \<and>
           pipeline_ok env (tier_config Preview req) 70 (input_color req) (buffer f) st out \<and>
           preview env req
             = (Image out, pipeline_calls (tier_config Preview req) 70 (input_color req) (buffer f) st)"
proof (cases "file req")
  case None
  with assms show ?thesis by (simp add: preview_run)
next
  case (Some f)
  obtain r tr where p: "pipeline env (tier_config Preview req) 70 (input_color req) (buffer f) [] = (r, tr)"
    by (cases "pipeline env (tier_config Preview req) 70 (input_color req) (buffer f) []")
  with assms Some obtain out where r: "r = Some out"
    by (cases r) (simp_all add: preview_run)
  from pipeline_Some [OF p [unfolded r]] obtain st where
    "pipeline_ok env (tier_config Preview req) 70 (input_color req) (buffer f) st out"
    "tr = pipeline_calls (tier_config Preview req) 70 (input_color req) (buffer f) st"
    by auto
  with Some p r show ?thesis by (auto simp add: preview_run)
qed

lemma Promise_all_uploads:
  "Promise_all (uploadToCloudinary env a na) (uploadToCloudinary env b nb) tr =
     (case cloudinary_upload env ''tote-bag-designs'' (public_id (Date_now env (length tr)) na) a of
        None \<Rightarrow> None
      | Some u1 \<Rightarrow>
          (case cloudinary_upload env ''tote-bag-designs''
                  (public_id (Date_now env (Suc (length tr))) nb) b of
             None \<Rightarrow> None
           | Some u2 \<Rightarrow> Some (u1, u2)),
      tr @ [UploadStream ''tote-bag-designs'' (public_id (Date_now env (length tr)) na) a,
            UploadStream ''tote-bag-designs'' (public_id (Date_now env (Suc (length tr))) nb) b])"
  by (simp add: Promise_all_def uploadToCloudinary_def Let_def split: option.splits)

lemma finalize_success:
  assumes "is_success (fst (finalize_for_shopify env req))"
  shows "\<exists>f st out u1 u2. file req = Some f \<and>
           pipeline_ok env (tier_config Finalize req) 95 (input_color req) (buffer f) st out \<and>
           finalize_for_shopify env req
             = (Published u1 u2 (input_color req) (input_logoX req) (input_logoY req)
                  (input_logoWidth req),
                pipeline_calls (tier_config Finalize req) 95 (input_color req) (buffer f) st
                @ [UploadStream ''tote-bag-designs'' (public_id (Date_now env 13) ''mockup.jpg'') out,
                   UploadStream ''tote-bag-designs''
                     (public_id (Date_now env 14) (originalname f)) (buffer f)])"
proof (cases "file req")
  case None
  with assms show ?thesis by (simp add: finalize_run)
next
  case (Some f)
  obtain r tr where p: "pipeline env (tier_config Finalize req) 95 (input_color req) (buffer f) [] = (r, tr)"
    by (cases "pipeline env (tier_config Finalize req) 95 (input_color req) (buffer f) []")
  with assms Some obtain out where r: "r = Some out"
    by (cases r) (simp_all add: finalize_run)
  from pipeline_Some [OF p [unfolded r]] obtain st where
    ok: "pipeline_ok env (tier_config Finalize req) 95 (input_color req) (buffer f) st out"
    and tr: "tr = pipeline_calls (tier_config Finalize req) 95 (input_color req) (buffer f) st"
    by auto
  have len: "length tr = 13" by (simp add: tr pipeline_calls_def Let_def)
  from assms Some p r len show ?thesis
    using ok tr
    by (auto simp add: finalize_run Promise_all_uploads split: option.splits)
qed

section \<open>Reading the log of a request that succeeds\<close>

lemma final_flatten_calls:
  "final_flatten (pipeline_calls cfg q color logo st @ rest) =
     [\<lparr>l_input = coloredFullBag st, l_top = None, l_left = None, l_blend = None\<rparr>,
      \<lparr>l_input = resizedLogo st, l_top = Some (logoTop cfg st),
       l_left = Some (logoLeft cfg st), l_blend = None\<rparr>,
      \<lparr>l_input = shadows st, l_top = None, l_left = None, l_blend = Some Multiply\<rparr>,
      \<lparr>l_input = highlights st, l_top = None, l_left = None, l_blend = Some Screen\<rparr>]"
  by (simp add: final_flatten_def pipeline_calls_def Let_def plain_def List.map_filter_simps)

lemma uploads_of_calls:
  "List.map_filter upload_bytes (pipeline_calls cfg q color logo st @ rest)
     = List.map_filter upload_bytes rest"
  by (simp add: pipeline_calls_def Let_def List.map_filter_simps)


lemma handle_success:
  assumes "is_success (fst (handle ep env req))"
  shows "\<exists>f st out rest.
           file req = Some f \<and>
           pipeline_ok env (tier_config ep req) (tier_quality ep) (input_color req) (buffer f) st out \<and>
           snd (handle ep env req)
             = pipeline_calls (tier_config ep req) (tier_quality ep) (input_color req) (buffer f) st @ rest \<and>
           output_image (handle ep env req) = Some out"
proof (cases ep)
  case Generate
  with assms generate_success [of env req] show ?thesis by fastforce
next
  case Preview
  with assms preview_success [of env req] show ?thesis by fastforce
next
  case Finalize
  with assms have "is_success (fst (finalize_for_shopify env req))" by simp
  from finalize_success [OF this] obtain f st out u1 u2 where
    f: "file req = Some f"
    and ok: "pipeline_ok env (tier_config Finalize req) 95 (input_color req) (buffer f) st out"
    and run: "finalize_for_shopify env req
             = (Published u1 u2 (input_color req) (input_logoX req) (input_logoY req)
                  (input_logoWidth req),
                pipeline_calls (tier_config Finalize req) 95 (input_color req) (buffer f) st
                @ [UploadStream ''tote-bag-designs'' (public_id (Date_now env 13) ''mockup.jpg'') out,
                   UploadStream ''tote-bag-designs''
                     (public_id (Date_now env 14) (originalname f)) (buffer f)])"
    by blast
  have "output_image (handle ep env req) = Some out"
    by (simp add: Finalize run uploads_of_calls List.map_filter_simps)
  with f ok run Finalize show ?thesis by auto
qed

lemma handle_answers:
  assumes "answers_all env" and "file req = Some f"
  shows "is_success (fst (handle ep env req))"
proof -
  obtain out tr where p:
    "pipeline env (tier_config ep req) (tier_quality ep) (input_color req) (buffer f) []
       = (Some out, tr)"
    using pipeline_answers [OF assms(1)] by blast
  from assms(1) have u: "\<And>folder pid b. \<exists>u. cloudinary_upload env folder pid b = Some u"
    by (auto simp: answers_all_def)
  show ?thesis
  proof (cases ep)
    case Generate
    with p assms(2) show ?thesis by (simp add: generate_run)
  next
    case Preview
    with p assms(2) show ?thesis by (simp add: preview_run)
  next
    case Finalize
    obtain u1 where u1: "cloudinary_upload env ''tote-bag-designs''
        (public_id (Date_now env (length tr)) ''mockup.jpg'') out = Some u1"
      using u by blast
    obtain u2 where u2: "cloudinary_upload env ''tote-bag-designs''
        (public_id (Date_now env (Suc (length tr))) (originalname f)) (buffer f) = Some u2"
      using u by blast
    from Finalize p assms(2) u1 u2 show ?thesis
      by (simp add: finalize_run Promise_all_uploads)
  qed
qed

lemma logo_position_calls:
  "logo_position (pipeline_calls cfg q color logo st @ rest)
     = (Some (logoTop cfg st), Some (logoLeft cfg st))"
  by (simp add: logo_position_def final_flatten_calls)

lemma tier_config_offsets:
  "logoXOffset (tier_config ep req) = tier_offset ep (input_logoX req)"
  "logoYOffset (tier_config ep req) = tier_offset ep (input_logoY req)"
  by (cases ep; simp add: generate_config_def preview_config_def finalize_config_def)+

lemma logo_position_run:
  "logo_position (pipeline_calls cfg q color logo st)
     = (Some (logoTop cfg st), Some (logoLeft cfg st))"
  using logo_position_calls [of cfg q color logo st "[]"] by simp

section \<open>Runs in the two environments\<close>

lemmas run_defs = pipeline_def let_value await_def toBuffer_def metadata_def num_def plain_def
  js_sub_def generate_config_def preview_config_def finalize_config_def
lemmas sizes_defs = sizes_env_def sized_env_def sized_metadata_def sized_toBuffer_def
  point_four_value round64_eval

lemma demo_request_inputs:
  "file demo_request = Some \<lparr>buffer = [900, 600], originalname = ''logo.png''\<rparr>"
  "input_color demo_request = ''#112233''"
  "input_logoX demo_request = Finite 20"
  "input_logoY demo_request = Finite (- 71 / 2)"
  "input_logoWidth demo_request = Finite 300"
  by (simp_all add: demo_request_def input_color_def input_logoX_def input_logoY_def
        input_logoWidth_def parse_defs)

lemma demo_generate_succeeds: "is_success (fst (handle Generate sizes_env demo_request))"
  by (simp add: generate_run demo_request_inputs run_defs sizes_defs)

lemma demo_preview_succeeds: "is_success (fst (handle Preview sizes_env demo_request))"
  by (simp add: preview_run demo_request_inputs run_defs sizes_defs)


section \<open>Requests without a logo file\<close>

text \<open>
  Claim C8. A request with no attached logo file gets status 400 from each of the
  three endpoints, and the log of calls is empty: nothing was asked of the raster
  engine, nothing was uploaded.
\<close>

theorem no_logo_file_is_client_error:
  "handle ep env (req\<lparr>file := None\<rparr>) = (Status 400 ''No logo file was uploaded.'', [])"
  by (cases ep) (simp_all add: generate_def preview_def finalize_for_shopify_def)

section \<open>Defaults\<close>

text \<open>
  Claim C6. At each endpoint, a request that leaves out \<^verbatim>\<open>color\<close>, \<^verbatim>\<open>logoX\<close>,
  \<^verbatim>\<open>logoY\<close> and \<^verbatim>\<open>logoWidth\<close> gets the response, and makes the calls, of the same
  request with \<^verbatim>\<open>#FFFFFF\<close>, \<^verbatim>\<open>0\<close>, \<^verbatim>\<open>175\<close> and \<^verbatim>\<open>450\<close> in these fields.
\<close>

theorem omitted_fields_equal_explicit_defaults:
  "handle ep env (req\<lparr>body_color := None, body_logoX := None, body_logoY := None,
                       body_logoWidth := None\<rparr>)
   = handle ep env (req\<lparr>body_color := Some ''#FFFFFF'', body_logoX := Some ''0'',
                         body_logoY := Some ''175'', body_logoWidth := Some ''450''\<rparr>)"
  by (rule handle_inputs)
     (simp_all add: input_color_def input_logoX_def input_logoY_def input_logoWidth_def
        parse_absent parse_defaults js_or_def)



section \<open>The order of the layers\<close>



section \<open>The Preview tier\<close>

text \<open>
  Claim C4. For a request that succeeds at \<^verbatim>\<open>/generate\<close> and at \<^verbatim>\<open>/preview\<close>, the
  two runs are runs of the pipeline, with the answers of the engine, for two
  \<^verbatim>\<open>config\<close> objects: the Full one has width 2000 and the (defaulted or explicit)
  inputs of the request, the Preview one has width 800, and its logo width and
  its two offsets are each \<^verbatim>\<open>round(0.4 * v)\<close> of the Full value \<open>v\<close>. The logo is
  resized to that width, and placed with those offsets.
\<close>

theorem preview_scaling_law:
  assumes "is_success (fst (handle Generate env req))"
    and "is_success (fst (handle Preview env req))"
  shows "\<exists>f full prev st st' out out'.
           file req = Some f \<and>
           pipeline_ok env full 95 (input_color req) (buffer f) st out \<and>
           pipeline_ok env prev 70 (input_color req) (buffer f) st' out' \<and>
           fst (handle Generate env req) = Image out \<and>
           fst (handle Preview env req) = Image out' \<and>
           snd (handle Generate env req)
             = pipeline_calls full 95 (input_color req) (buffer f) st \<and>
           snd (handle Preview env req)
             = pipeline_calls prev 70 (input_color req) (buffer f) st' \<and>
           finalImageWidth full = Finite 2000 \<and>
           logoWidth full = input_logoWidth req \<and>
           logoXOffset full = input_logoX req \<and>
           logoYOffset full = input_logoY req \<and>
           finalImageWidth prev = Finite 800 \<and>
           logoWidth prev = Math_round (js_mul point_four (logoWidth full)) \<and>
           logoXOffset prev = Math_round (js_mul point_four (logoXOffset full)) \<and>
           logoYOffset prev = Math_round (js_mul point_four (logoYOffset full)) \<and>
           sharp_toBuffer env (Buffer (buffer f))
               [ResizeWidth (Math_round (js_mul point_four (input_logoWidth req)))]
             = Some (resizedLogo st') \<and>
           sharp_metadata env (Buffer (resizedLogo st')) = Some (logoMetadata st') \<and>
           logo_position (snd (handle Preview env req))
             = (Some (placement (finalImageHeight prev st') (num (height (logoMetadata st')))
                        (Math_round (js_mul point_four (input_logoY req)))),
                Some (placement (Finite 800) (num (width (logoMetadata st')))
                        (Math_round (js_mul point_four (input_logoX req)))))"
proof -
  let ?full = "tier_config Generate req"
  let ?prev = "tier_config Preview req"
  from assms(1) have "is_success (fst (generate env req))" by simp
  from generate_success [OF this] obtain f st out where
    f: "file req = Some f"
    and okg: "pipeline_ok env ?full 95 (input_color req) (buffer f) st out"
    and g: "generate env req
             = (Image out, pipeline_calls ?full 95 (input_color req) (buffer f) st)"
    by blast
  from assms(2) have "is_success (fst (preview env req))" by simp
  from preview_success [OF this] f obtain st' out' where
    okp: "pipeline_ok env ?prev 70 (input_color req) (buffer f) st' out'"
    and p: "preview env req
             = (Image out', pipeline_calls ?prev 70 (input_color req) (buffer f) st')"
    by auto
  have rg: "fst (handle Generate env req) = Image out"
    "snd (handle Generate env req) = pipeline_calls ?full 95 (input_color req) (buffer f) st"
    by (simp_all add: g)
  have rp: "fst (handle Preview env req) = Image out'"
    "snd (handle Preview env req) = pipeline_calls ?prev 70 (input_color req) (buffer f) st'"
    by (simp_all add: p)
  have cf: "finalImageWidth ?full = Finite 2000" "logoWidth ?full = input_logoWidth req"
    "logoXOffset ?full = input_logoX req" "logoYOffset ?full = input_logoY req"
    by (simp_all add: generate_config_def)
  have cp: "finalImageWidth ?prev = Finite 800"
    "logoWidth ?prev = Math_round (js_mul point_four (logoWidth ?full))"
    "logoXOffset ?prev = Math_round (js_mul point_four (logoXOffset ?full))"
    "logoYOffset ?prev = Math_round (js_mul point_four (logoYOffset ?full))"
    by (simp_all add: generate_config_def preview_config_def js_mul_commute)
  from okp have rl: "sharp_toBuffer env (Buffer (buffer f))
               [ResizeWidth (Math_round (js_mul point_four (input_logoWidth req)))]
             = Some (resizedLogo st')"
    and lm: "sharp_metadata env (Buffer (resizedLogo st')) = Some (logoMetadata st')"
    by (simp_all add: pipeline_ok_def Let_def preview_config_def js_mul_commute)
  have pos: "logo_position (snd (handle Preview env req))
             = (Some (placement (finalImageHeight ?prev st') (num (height (logoMetadata st')))
                        (Math_round (js_mul point_four (input_logoY req)))),
                Some (placement (Finite 800) (num (width (logoMetadata st')))
                        (Math_round (js_mul point_four (input_logoX req)))))"
    unfolding rp(2) logo_position_run
    by (simp add: logoTop_def logoLeft_def placement_def preview_config_def js_mul_commute)
  show ?thesis
    by (rule exI [of _ f], rule exI [of _ ?full], rule exI [of _ ?prev], rule exI [of _ st],
        rule exI [of _ st'], rule exI [of _ out], rule exI [of _ out'])
       (intro conjI f okg okp rg rp cf cp rl lm pos)
qed

theorem preview_scaling_law_witness:
  "is_success (fst (handle Generate sizes_env demo_request)) \<and>
   is_success (fst (handle Preview sizes_env demo_request)) \<and>
   ToBuffer (Buffer [900, 600]) [ResizeWidth (Finite 300)]
     \<in> set (snd (handle Generate sizes_env demo_request)) \<and>
   ToBuffer (Buffer [900, 600]) [ResizeWidth (Finite 120)]
     \<in> set (snd (handle Preview sizes_env demo_request)) \<and>
   Math_round (js_mul point_four (input_logoY demo_request)) = Finite (- 14) \<and>
   Math_round (js_mul point_four (input_logoX demo_request)) = Finite 8 \<and>
   logo_position (snd (handle Preview sizes_env demo_request))
     = (Some (placement (Finite 600) (num 80) (Finite (- 14))),
        Some (placement (Finite 800) (num 120) (Finite 8)))"
proof -
  have g: "is_success (fst (handle Generate sizes_env demo_request))"
    by (rule demo_generate_succeeds)
  have p: "is_success (fst (handle Preview sizes_env demo_request))"
    by (rule demo_preview_succeeds)
  from preview_scaling_law [OF g p] obtain f full prev st st' where
    f: "file demo_request = Some f"
    and tg: "snd (handle Generate sizes_env demo_request)
             = pipeline_calls full 95 (input_color demo_request) (buffer f) st"
    and tp: "snd (handle Preview sizes_env demo_request)
             = pipeline_calls prev 70 (input_color demo_request) (buffer f) st'"
    and w: "logoWidth full = input_logoWidth demo_request"
    and w': "logoWidth prev = Math_round (js_mul point_four (logoWidth full))"
    by blast
  from f have b: "buffer f = [900, 600]" by (auto simp add: demo_request_inputs)
  have "logoWidth full = Finite 300" by (simp add: w demo_request_inputs)
  moreover from this have "logoWidth prev = Finite 120"
    by (simp add: w' point_four_value round64_eval)
  ultimately have c: "ToBuffer (Buffer [900, 600]) [ResizeWidth (Finite 300)]
       \<in> set (snd (handle Generate sizes_env demo_request)) \<and>
     ToBuffer (Buffer [900, 600]) [ResizeWidth (Finite 120)]
       \<in> set (snd (handle Preview sizes_env demo_request))"
    unfolding tg tp by (simp add: b pipeline_calls_def Let_def)
  have o: "Math_round (js_mul point_four (input_logoY demo_request)) = Finite (- 14)"
    "Math_round (js_mul point_four (input_logoX demo_request)) = Finite 8"
    by (simp_all add: demo_request_inputs point_four_value round64_eval)
  have v: "logo_position (snd (handle Preview sizes_env demo_request))
     = (Some (placement (Finite 600) (num 80) (Finite (- 14))),
        Some (placement (Finite 800) (num 120) (Finite 8)))"
    by (simp add: preview_run demo_request_inputs run_defs sizes_defs logo_position_def
          final_flatten_def List.map_filter_simps placement_def)
  from g p c o v show ?thesis by blast
qed

section \<open>Size and quality of the output\<close>

lemma as_size_num: "as_size w = Some a \<Longrightarrow> num a = w"
  by (cases w) (auto simp: num_def split: if_splits)

lemma sized_env_resize_exact: "resize_exact (sized_env d)"
  unfolding resize_exact_def
proof (intro allI impI)
  fix src w h b
  assume r: "sharp_toBuffer (sized_env d) src [Resize w h] = Some b"
  then obtain a c where a: "as_size w = Some a" and c: "as_size h = Some c" and b: "b = [a, c]"
    by (auto simp: sized_env_def sized_toBuffer_def split: option.splits)
  have "sharp_metadata (sized_env d) (Buffer b) = Some \<lparr>width = a, height = c\<rparr>"
    by (simp add: sized_env_def sized_metadata_def b)
  with as_size_num [OF a] as_size_num [OF c]
  show "\<exists>m. sharp_metadata (sized_env d) (Buffer b) = Some m \<and> num (width m) = w
          \<and> num (height m) = h"
    by simp
qed

lemma sized_env_flatten_keeps_size: "flatten_keeps_size (sized_env d)"
  unfolding flatten_keeps_size_def
  by (auto simp: sized_env_def sized_toBuffer_def sized_metadata_def
           split: option.splits list.splits)

text \<open>
  Claim C5, the height as the specification states it, is false. For a
  background of 608 by 551, \<^verbatim>\<open>/generate\<close> computes
  \<^verbatim>\<open>Math.round(551 * (2000 / 608))\<close>: the quotient is rounded to a double first,
  the product is just below 1812.5, and the image is 2000 by 1812, where
  \<^verbatim>\<open>round(551 * 2000 / 608)\<close> is 1813. For a background of 1856 by 2175,
  \<^verbatim>\<open>/preview\<close> gives 800 by 937, where \<^verbatim>\<open>round(2175 * 800 / 1856)\<close> is 938.
\<close>

theorem height_divides_before_it_multiplies:
  "sharp_metadata (sized_env (608, 551)) (Path ''assets/background.png'')
     = Some \<lparr>width = 608, height = 551\<rparr> \<and>
   output_image (handle Generate (sized_env (608, 551)) demo_request) = Some [2000, 1812] \<and>
   sharp_metadata (sized_env (608, 551)) (Buffer [2000, 1812])
     = Some \<lparr>width = 2000, height = 1812\<rparr> \<and>
   Math_round (js_div (js_mul (num 551) (Finite 2000)) (num 608)) = Finite 1813 \<and>
   sharp_metadata (sized_env (1856, 2175)) (Path ''assets/background.png'')
     = Some \<lparr>width = 1856, height = 2175\<rparr> \<and>
   output_image (handle Preview (sized_env (1856, 2175)) demo_request) = Some [800, 937] \<and>
   sharp_metadata (sized_env (1856, 2175)) (Buffer [800, 937])
     = Some \<lparr>width = 800, height = 937\<rparr> \<and>
   Math_round (js_div (js_mul (num 2175) (Finite 800)) (num 1856)) = Finite 938"
proof -
  have m: "sharp_metadata (sized_env (608, 551)) (Path ''assets/background.png'')
     = Some \<lparr>width = 608, height = 551\<rparr>"
    "sharp_metadata (sized_env (608, 551)) (Buffer [2000, 1812])
     = Some \<lparr>width = 2000, height = 1812\<rparr>"
    "sharp_metadata (sized_env (1856, 2175)) (Path ''assets/background.png'')
     = Some \<lparr>width = 1856, height = 2175\<rparr>"
    "sharp_metadata (sized_env (1856, 2175)) (Buffer [800, 937])
     = Some \<lparr>width = 800, height = 937\<rparr>"
    by (simp_all add: sized_env_def sized_metadata_def)
  have g: "output_image (handle Generate (sized_env (608, 551)) demo_request)
             = Some [2000, 1812]"
    by (simp add: generate_run demo_request_inputs run_defs sizes_defs)
  have p: "output_image (handle Preview (sized_env (1856, 2175)) demo_request)
             = Some [800, 937]"
    by (simp add: preview_run demo_request_inputs run_defs sizes_defs)
  have s: "Math_round (js_div (js_mul (num 551) (Finite 2000)) (num 608)) = Finite 1813"
    "Math_round (js_div (js_mul (num 2175) (Finite 800)) (num 1856)) = Finite 938"
    by (simp_all add: num_def round64_eval)
  from m g p s show ?thesis by simp
qed

text \<open>
  Claim C5, amended. Let the environment resize exactly and keep sizes when it
  flattens, as \<^verbatim>\<open>sharp\<close> documents. Then the image of a request that succeeds (the
  bytes sent by \<^verbatim>\<open>/generate\<close> and \<^verbatim>\<open>/preview\<close>, the mockup uploaded by
  \<^verbatim>\<open>/finalize-for-shopify\<close>) is the answer to a pipeline that ends in
  \<^verbatim>\<open>toFormat('jpeg').jpeg({ quality })\<close> with quality 95 at the Full tier and 70
  at the Preview tier; its width is 2000 at the Full tier and 800 at the Preview
  tier, and its height is \<^verbatim>\<open>Math.round(h * (width / w))\<close> in the arithmetic of
  doubles, the quotient rounded before the product, for the native size \<open>w\<close> by
  \<open>h\<close> of the background.
\<close>

theorem output_size_and_quality:
  assumes "resize_exact env" and "flatten_keeps_size env"
    and "output_image (handle ep env req) = Some out"
  shows "\<exists>bm bg ls m.
           sharp_metadata env (Path ''assets/background.png'') = Some bm \<and>
           sharp_toBuffer env (Buffer bg)
             [Composite ls, ToFormat ''jpeg'', Jpeg (tier_quality ep)] = Some out \<and>
           sharp_metadata env (Buffer out) = Some m \<and>
           num (width m) = tier_width ep \<and>
           num (height m)
             = Math_round (js_mul (num (height bm)) (js_div (tier_width ep) (num (width bm)))) \<and>
           tier_width ep = (if ep = Preview then Finite 800 else Finite 2000) \<and>
           tier_quality ep = (if ep = Preview then 70 else 95)"
proof -
  from assms(3) have "is_success (fst (handle ep env req))"
    by (cases "handle ep env req"; cases "fst (handle ep env req)") auto
  from handle_success [OF this] obtain f st out' where
    "file req = Some f" and
    ok': "pipeline_ok env (tier_config ep req) (tier_quality ep) (input_color req)
               (buffer f) st out'"
    and out': "output_image (handle ep env req) = Some out'"
    by blast
  from out' assms(3) have "out' = out" by simp
  with ok' have
    ok: "pipeline_ok env (tier_config ep req) (tier_quality ep) (input_color req)
               (buffer f) st out"
    by simp
  let ?w = "tier_width ep"
  let ?h = "finalImageHeight (tier_config ep req) st"
  from ok have bm: "sharp_metadata env (Path ''assets/background.png'') = Some (baseMetadata st)"
    and bg: "sharp_toBuffer env (Path ''assets/background.png'') [Resize ?w ?h]
               = Some (cleanBackgroundBuffer st)"
    and fl: "sharp_toBuffer env (Buffer (cleanBackgroundBuffer st))
          [Composite
             [plain (coloredFullBag st) None,
              \<lparr>l_input = resizedLogo st, l_top = Some (logoTop (tier_config ep req) st),
               l_left = Some (logoLeft (tier_config ep req) st), l_blend = None\<rparr>,
              plain (shadows st) (Some Multiply),
              plain (highlights st) (Some Screen)],
           ToFormat ''jpeg'', Jpeg (tier_quality ep)] = Some out"
    by (simp_all add: pipeline_ok_def Let_def tier_config_width)
  from assms(1) bg obtain m where
    m: "sharp_metadata env (Buffer (cleanBackgroundBuffer st)) = Some m"
    and mw: "num (width m) = ?w" and mh: "num (height m) = ?h"
    unfolding resize_exact_def by blast
  from assms(2) fl have "sharp_metadata env (Buffer out)
      = sharp_metadata env (Buffer (cleanBackgroundBuffer st))"
    unfolding flatten_keeps_size_def by blast
  with m have mo: "sharp_metadata env (Buffer out) = Some m" by simp
  have h: "?h = Math_round (js_mul (num (height (baseMetadata st)))
                              (js_div (tier_width ep) (num (width (baseMetadata st)))))"
    by (simp add: finalImageHeight_def tier_config_width)
  have c: "tier_width ep = (if ep = Preview then Finite 800 else Finite 2000)"
    "tier_quality ep = (if ep = Preview then 70 else 95)"
    by (cases ep; simp)+
  have hm: "num (height m)
      = Math_round (js_mul (num (height (baseMetadata st)))
                           (js_div (tier_width ep) (num (width (baseMetadata st)))))"
    by (simp only: mh h)
  from bm fl mo mw hm c show ?thesis by blast
qed

theorem output_size_and_quality_witness:
  "resize_exact (sized_env (608, 551)) \<and> flatten_keeps_size (sized_env (608, 551)) \<and>
   output_image (handle Generate (sized_env (608, 551)) demo_request) = Some [2000, 1812] \<and>
   sharp_metadata (sized_env (608, 551)) (Buffer [2000, 1812])
     = Some \<lparr>width = 2000, height = 1812\<rparr> \<and>
   sharp_metadata (sized_env (608, 551)) (Path ''assets/background.png'')
     = Some \<lparr>width = 608, height = 551\<rparr> \<and>
   num 1812 = Math_round (js_mul (num 551) (js_div (tier_width Generate) (num 608)))"
proof -
  let ?e = "sized_env (608, 551)"
  have o: "output_image (handle Generate ?e demo_request) = Some [2000, 1812]"
    by (simp add: generate_run demo_request_inputs run_defs sizes_defs)
  have bm: "sharp_metadata ?e (Path ''assets/background.png'')
     = Some \<lparr>width = 608, height = 551\<rparr>"
    and om: "sharp_metadata ?e (Buffer [2000, 1812]) = Some \<lparr>width = 2000, height = 1812\<rparr>"
    by (simp_all add: sized_env_def sized_metadata_def)
  from output_size_and_quality [OF sized_env_resize_exact sized_env_flatten_keeps_size o]
  obtain bm' m where
    "sharp_metadata ?e (Path ''assets/background.png'') = Some bm'"
    "sharp_metadata ?e (Buffer [2000, 1812]) = Some m"
    "num (height m)
       = Math_round (js_mul (num (height bm')) (js_div (tier_width Generate) (num (width bm'))))"
    by blast
  with bm om
  have "num 1812 = Math_round (js_mul (num 551) (js_div (tier_width Generate) (num 608)))"
    by auto
  with sized_env_resize_exact [of "(608, 551)"] sized_env_flatten_keeps_size [of "(608, 551)"]
    o bm om
  show ?thesis by blast
qed

section \<open>Placement of the logo\<close>

text \<open>
  Claim C3, the formula as the specification states it, is false at the Full
  tier for an offset that is not an integer. A logo resized to width 451 with
  \<^verbatim>\<open>logoX = 0.5\<close> is placed by \<^verbatim>\<open>/generate\<close> at
  \<^verbatim>\<open>round(1000 - 225.5 + 0.5) = 775\<close>; rounding the offset first gives
  \<^verbatim>\<open>round(1000 - 225.5 + 1) = 776\<close>.
\<close>

theorem full_tier_offset_not_rounded:
  "input_logoX half_pixel_request = Finite (1 / 2) \<and>
   ToBuffer (Buffer [902, 600]) [ResizeWidth (Finite 451)]
     \<in> set (snd (handle Generate sizes_env half_pixel_request)) \<and>
   Metadata (Buffer [451, 300]) \<in> set (snd (handle Generate sizes_env half_pixel_request)) \<and>
   snd (logo_position (snd (handle Generate sizes_env half_pixel_request)))
     = Some (Finite 775) \<and>
   spec_placement (Finite 2000) (num 451) (input_logoX half_pixel_request) (Finite 1)
     = Finite 776"
proof -
  have i: "file half_pixel_request = Some \<lparr>buffer = [902, 600], originalname = ''logo.png''\<rparr>"
    "input_color half_pixel_request = ''#FFFFFF''"
    "input_logoX half_pixel_request = Finite (1 / 2)"
    "input_logoY half_pixel_request = Finite 175"
    "input_logoWidth half_pixel_request = Finite 451"
    by (simp_all add: half_pixel_request_def input_color_def input_logoX_def input_logoY_def
          input_logoWidth_def parse_defs)
  have s: "spec_placement (Finite 2000) (num 451) (Finite (1 / 2)) (Finite 1) = Finite 776"
    by (simp add: spec_placement_def num_def js_sub_def round64_eval)
  have r: "ToBuffer (Buffer [902, 600]) [ResizeWidth (Finite 451)]
       \<in> set (snd (handle Generate sizes_env half_pixel_request)) \<and>
     Metadata (Buffer [451, 300]) \<in> set (snd (handle Generate sizes_env half_pixel_request)) \<and>
     snd (logo_position (snd (handle Generate sizes_env half_pixel_request)))
       = Some (Finite 775)"
    by (simp add: i generate_run run_defs sizes_defs logo_position_def final_flatten_def
          List.map_filter_simps)
  from i(3) r s show ?thesis by simp
qed

text \<open>
  Claim C3, amended. At each endpoint, a request that succeeds places the logo at
  \<^verbatim>\<open>logoLeft = round(canvasWidth/2 - resizedLogoWidth/2 + dx)\<close> and
  \<^verbatim>\<open>logoTop = round(canvasHeight/2 - resizedLogoHeight/2 + dy)\<close>, where at the
  Preview tier \<open>dx\<close> and \<open>dy\<close> are \<^verbatim>\<open>round(logoX * 0.4)\<close> and
  \<^verbatim>\<open>round(logoY * 0.4)\<close>, and at the Full tier they are \<^verbatim>\<open>logoX\<close> and \<^verbatim>\<open>logoY\<close>,
  added without rounding. No handler checks an offset: with an engine and a store
  that answer every call, every request with a logo file succeeds.
\<close>

theorem placement_as_computed:
  assumes "file req = Some f"
  shows "(is_success (fst (handle ep env req)) \<longrightarrow>
           (\<exists>st out.
              pipeline_ok env (tier_config ep req) (tier_quality ep) (input_color req)
                (buffer f) st out \<and>
              logo_position (snd (handle ep env req)) =
                (Some (placement (finalImageHeight (tier_config ep req) st)
                         (num (height (logoMetadata st)))
                         (tier_offset ep (input_logoY req))),
                 Some (placement (tier_width ep) (num (width (logoMetadata st)))
                         (tier_offset ep (input_logoX req))))))
       \<and> (answers_all env \<longrightarrow> is_success (fst (handle ep env req)))"
proof (intro conjI impI)
  assume "is_success (fst (handle ep env req))"
  from handle_success [OF this] assms obtain st out rest where
    ok: "pipeline_ok env (tier_config ep req) (tier_quality ep) (input_color req)
               (buffer f) st out"
    and tr: "snd (handle ep env req)
               = pipeline_calls (tier_config ep req) (tier_quality ep) (input_color req)
                   (buffer f) st @ rest"
    by auto
  have "logo_position (snd (handle ep env req)) =
                (Some (placement (finalImageHeight (tier_config ep req) st)
                         (num (height (logoMetadata st)))
                         (tier_offset ep (input_logoY req))),
                 Some (placement (tier_width ep) (num (width (logoMetadata st)))
                         (tier_offset ep (input_logoX req))))"
    unfolding tr logo_position_calls
    by (simp add: logoTop_def logoLeft_def placement_def tier_config_offsets tier_config_width)
  with ok show "\<exists>st out.
              pipeline_ok env (tier_config ep req) (tier_quality ep) (input_color req)
                (buffer f) st out \<and>
              logo_position (snd (handle ep env req)) =
                (Some (placement (finalImageHeight (tier_config ep req) st)
                         (num (height (logoMetadata st)))
                         (tier_offset ep (input_logoY req))),
                 Some (placement (tier_width ep) (num (width (logoMetadata st)))
                         (tier_offset ep (input_logoX req))))"
    by blast
next
  assume "answers_all env"
  from handle_answers [OF this assms] show "is_success (fst (handle ep env req))" .
qed

lemma accepting_env_answers: "answers_all accepting_env"
  by (simp add: answers_all_def accepting_env_def demo_url_def)

theorem placement_as_computed_witness:
  "file demo_request = Some \<lparr>buffer = [900, 600], originalname = ''logo.png''\<rparr> \<and>
   is_success (fst (handle Preview sizes_env demo_request)) \<and>
   logo_position (snd (handle Preview sizes_env demo_request))
     = (Some (Finite 246), Some (Finite 348)) \<and>
   (\<exists>st. logo_position (snd (handle Preview sizes_env demo_request))
          = (Some (placement (finalImageHeight (tier_config Preview demo_request) st)
                     (num (height (logoMetadata st)))
                     (Math_round (js_mul (input_logoY demo_request) point_four))),
             Some (placement (Finite 800) (num (width (logoMetadata st)))
                     (Math_round (js_mul (input_logoX demo_request) point_four))))) \<and>
   file off_canvas_request = Some \<lparr>buffer = [900, 600], originalname = ''logo.png''\<rparr> \<and>
   input_logoX off_canvas_request = Finite (- 5000) \<and>
   input_logoY off_canvas_request = Finite 9000 \<and>
   answers_all accepting_env \<and>
   is_success (fst (handle Generate accepting_env off_canvas_request))"
proof -
  have f: "file demo_request = Some \<lparr>buffer = [900, 600], originalname = ''logo.png''\<rparr>"
    by (rule demo_request_inputs(1))
  have s: "is_success (fst (handle Preview sizes_env demo_request))"
    by (rule demo_preview_succeeds)
  have v: "logo_position (snd (handle Preview sizes_env demo_request))
     = (Some (Finite 246), Some (Finite 348))"
    by (simp add: preview_run demo_request_inputs run_defs sizes_defs logo_position_def
          final_flatten_def List.map_filter_simps)
  from placement_as_computed [OF f, of Preview sizes_env] s
  have e: "\<exists>st. logo_position (snd (handle Preview sizes_env demo_request))
          = (Some (placement (finalImageHeight (tier_config Preview demo_request) st)
                     (num (height (logoMetadata st)))
                     (Math_round (js_mul (input_logoY demo_request) point_four))),
             Some (placement (Finite 800) (num (width (logoMetadata st)))
                     (Math_round (js_mul (input_logoX demo_request) point_four))))"
    by auto
  have g: "file off_canvas_request = Some \<lparr>buffer = [900, 600], originalname = ''logo.png''\<rparr>"
    "input_logoX off_canvas_request = Finite (- 5000)"
    "input_logoY off_canvas_request = Finite 9000"
    by (simp_all add: off_canvas_request_def input_logoX_def input_logoY_def parse_defs)
  from placement_as_computed [OF g(1), of Generate accepting_env] accepting_env_answers
  have a: "is_success (fst (handle Generate accepting_env off_canvas_request))"
    by blast
  from f s v e g a accepting_env_answers show ?thesis by blast
qed

section \<open>Centring\<close>

text \<open>
  Claim C1 at \<^verbatim>\<open>logoX = 0\<close>, \<^verbatim>\<open>logoY = 0\<close>, for a logo of 900 by 600 on the 4000
  by 3000 background. The \<^verbatim>\<open>logoY\<close> of 0 is replaced by 175. \<^verbatim>\<open>/generate\<close> puts
  the 450 by 300 logo on the 2000 by 1500 canvas at left 775, which is centred,
  and at top 775, where a centred box has top 600. \<^verbatim>\<open>/preview\<close> puts the 180 by
  120 logo on the 800 by 600 canvas at left 310, which is centred, and at top
  310, where a centred box has top 240.
\<close>

theorem zero_logoY_is_not_centred:
  "input_logoX zero_offsets_request = Finite 0 \<and>
   input_logoY zero_offsets_request = Finite 175 \<and>
   ToBuffer (Path ''assets/background.png'') [Resize (Finite 2000) (Finite 1500)]
     \<in> set (snd (handle Generate sizes_env zero_offsets_request)) \<and>
   Metadata (Buffer [450, 300]) \<in> set (snd (handle Generate sizes_env zero_offsets_request)) \<and>
   logo_position (snd (handle Generate sizes_env zero_offsets_request))
     = (Some (Finite 775), Some (Finite 775)) \<and>
   placement (Finite 1500) (num 300) (Finite 0) = Finite 600 \<and>
   placement (Finite 2000) (num 450) (Finite 0) = Finite 775 \<and>
   ToBuffer (Path ''assets/background.png'') [Resize (Finite 800) (Finite 600)]
     \<in> set (snd (handle Preview sizes_env zero_offsets_request)) \<and>
   Metadata (Buffer [180, 120]) \<in> set (snd (handle Preview sizes_env zero_offsets_request)) \<and>
   logo_position (snd (handle Preview sizes_env zero_offsets_request))
     = (Some (Finite 310), Some (Finite 310)) \<and>
   placement (Finite 600) (num 120) (Finite 0) = Finite 240 \<and>
   placement (Finite 800) (num 180) (Finite 0) = Finite 310"
proof -
  have i: "file zero_offsets_request
             = Some \<lparr>buffer = [900, 600], originalname = ''logo.png''\<rparr>"
    "input_color zero_offsets_request = ''#FFFFFF''"
    "input_logoX zero_offsets_request = Finite 0"
    "input_logoY zero_offsets_request = Finite 175"
    "input_logoWidth zero_offsets_request = Finite 450"
    by (simp_all add: zero_offsets_request_def input_color_def input_logoX_def input_logoY_def
          input_logoWidth_def parse_defs)
  have g: "ToBuffer (Path ''assets/background.png'') [Resize (Finite 2000) (Finite 1500)]
     \<in> set (snd (handle Generate sizes_env zero_offsets_request)) \<and>
   Metadata (Buffer [450, 300]) \<in> set (snd (handle Generate sizes_env zero_offsets_request)) \<and>
   logo_position (snd (handle Generate sizes_env zero_offsets_request))
     = (Some (Finite 775), Some (Finite 775))"
    by (simp add: i generate_run run_defs sizes_defs logo_position_def final_flatten_def
          List.map_filter_simps)
  have p: "ToBuffer (Path ''assets/background.png'') [Resize (Finite 800) (Finite 600)]
     \<in> set (snd (handle Preview sizes_env zero_offsets_request)) \<and>
   Metadata (Buffer [180, 120]) \<in> set (snd (handle Preview sizes_env zero_offsets_request)) \<and>
   logo_position (snd (handle Preview sizes_env zero_offsets_request))
     = (Some (Finite 310), Some (Finite 310))"
    by (simp add: i preview_run run_defs sizes_defs logo_position_def final_flatten_def
          List.map_filter_simps)
  have c: "placement (Finite 1500) (num 300) (Finite 0) = Finite 600"
    "placement (Finite 2000) (num 450) (Finite 0) = Finite 775"
    "placement (Finite 600) (num 120) (Finite 0) = Finite 240"
    "placement (Finite 800) (num 180) (Finite 0) = Finite 310"
    by (simp_all add: placement_def num_def js_sub_def round64_eval)
  from i(3,4) g p c show ?thesis by blast
qed

section \<open>Storage identifiers\<close>

text \<open>
  Claim C9 for a logo file named \<^verbatim>\<open>mockup.jpg\<close>, the clock not advancing between
  the two calls of \<^verbatim>\<open>uploadToCloudinary\<close>: the mockup and the logo are uploaded
  under the same folder and the same public id.
\<close>

theorem same_name_same_millisecond_same_public_id:
  "filter is_upload (snd (handle Finalize sizes_env mockup_named_request))
     = [UploadStream ''tote-bag-designs'' ''1700000000000-mockup'' [2000, 1500],
        UploadStream ''tote-bag-designs'' ''1700000000000-mockup'' [900, 600]]"
proof -
  have i: "file mockup_named_request
             = Some \<lparr>buffer = [900, 600], originalname = ''mockup.jpg''\<rparr>"
    "input_color mockup_named_request = ''#FFFFFF''"
    "input_logoX mockup_named_request = Finite 0"
    "input_logoY mockup_named_request = Finite 175"
    "input_logoWidth mockup_named_request = Finite 450"
    by (simp_all add: mockup_named_request_def input_color_def input_logoX_def input_logoY_def
          input_logoWidth_def parse_defs)
  have n: "Number_toString 1700000000000 = ''1700000000000''"
    by (simp add: Number_toString.simps digit_char_def)
  have p: "public_id 1700000000000 ''mockup.jpg'' = ''1700000000000-mockup''"
    by (simp add: public_id_def n path_name_def path_base_def)
  show ?thesis
    by (simp add: i p finalize_run run_defs sizes_defs Promise_all_uploads demo_url_def)
qed

section \<open>Publishing\<close>

lemma with_snd: "fst x = a \<Longrightarrow> x = (a, snd x)"
  by (cases x) simp

text \<open>
  Claim C7. For a request with a logo file at \<^verbatim>\<open>/finalize-for-shopify\<close>: if the
  render (step 1) fails, the response is the status 500 and the log is that of
  the render, which holds no upload. If the render gives an image, both uploads
  are made, the mockup first, and nothing follows them in the log, whatever they
  answer; the response carries the two URLs if both uploads succeed, and is the
  status 500, which carries no URL, if either fails.
\<close>

theorem publish_is_all_or_nothing:
  assumes "file req = Some f"
  shows "(finalize_render env (input_color req) (buffer f) (input_logoX req) (input_logoY req)
            (input_logoWidth req) [] = (None, tr) \<longrightarrow>
          finalize_for_shopify env req
            = (Status 500 ''An error occurred while preparing your design for the cart.'', tr)
          \<and> filter is_upload tr = [])
       \<and> (finalize_render env (input_color req) (buffer f) (input_logoX req) (input_logoY req)
            (input_logoWidth req) [] = (Some img, tr) \<longrightarrow>
          filter is_upload tr = [] \<and>
          snd (finalize_for_shopify env req)
            = tr @ [UploadStream ''tote-bag-designs''
                      (public_id (Date_now env (length tr)) ''mockup.jpg'') img,
                    UploadStream ''tote-bag-designs''
                      (public_id (Date_now env (Suc (length tr))) (originalname f)) (buffer f)]
          \<and> fst (finalize_for_shopify env req)
            = (case (cloudinary_upload env ''tote-bag-designs''
                       (public_id (Date_now env (length tr)) ''mockup.jpg'') img,
                     cloudinary_upload env ''tote-bag-designs''
                       (public_id (Date_now env (Suc (length tr))) (originalname f)) (buffer f))
               of (Some mockupUrl, Some originalLogoUrl) \<Rightarrow>
                    Published mockupUrl originalLogoUrl (input_color req) (input_logoX req)
                      (input_logoY req) (input_logoWidth req)
                | _ \<Rightarrow>
                    Status 500 ''An error occurred while preparing your design for the cart.''))"
proof (intro conjI impI)
  assume r: "finalize_render env (input_color req) (buffer f) (input_logoX req)
               (input_logoY req) (input_logoWidth req) [] = (None, tr)"
  then have p: "pipeline env (tier_config Finalize req) 95 (input_color req) (buffer f) []
                  = (None, tr)"
    by (simp add: finalize_render_pipeline)
  with assms show "finalize_for_shopify env req
            = (Status 500 ''An error occurred while preparing your design for the cart.'', tr)"
    by (simp add: finalize_run)
  from p show "filter is_upload tr = []" by (rule pipeline_uploads_nothing)
next
  assume r: "finalize_render env (input_color req) (buffer f) (input_logoX req)
               (input_logoY req) (input_logoWidth req) [] = (Some img, tr)"
  then have p: "pipeline env (tier_config Finalize req) 95 (input_color req) (buffer f) []
                  = (Some img, tr)"
    by (simp add: finalize_render_pipeline)
  from p show "filter is_upload tr = []" by (rule pipeline_uploads_nothing)
  from p assms show "snd (finalize_for_shopify env req)
            = tr @ [UploadStream ''tote-bag-designs''
                      (public_id (Date_now env (length tr)) ''mockup.jpg'') img,
                    UploadStream ''tote-bag-designs''
                      (public_id (Date_now env (Suc (length tr))) (originalname f)) (buffer f)]"
    by (simp add: finalize_run Promise_all_uploads split: option.splits)
  from p assms show "fst (finalize_for_shopify env req)
            = (case (cloudinary_upload env ''tote-bag-designs''
                       (public_id (Date_now env (length tr)) ''mockup.jpg'') img,
                     cloudinary_upload env ''tote-bag-designs''
                       (public_id (Date_now env (Suc (length tr))) (originalname f)) (buffer f))
               of (Some mockupUrl, Some originalLogoUrl) \<Rightarrow>
                    Published mockupUrl originalLogoUrl (input_color req) (input_logoX req)
                      (input_logoY req) (input_logoWidth req)
                | _ \<Rightarrow>
                    Status 500 ''An error occurred while preparing your design for the cart.'')"
    by (simp add: finalize_run Promise_all_uploads split: option.splits)
qed

theorem publish_is_all_or_nothing_witness:
  "file demo_request = Some \<lparr>buffer = [900, 600], originalname = ''logo.png''\<rparr> \<and>
   fst (finalize_render failing_upload_env (input_color demo_request) [900, 600]
          (input_logoX demo_request) (input_logoY demo_request)
          (input_logoWidth demo_request) []) = Some [2000, 1500] \<and>
   fst (finalize_for_shopify failing_upload_env demo_request)
     = Status 500 ''An error occurred while preparing your design for the cart.'' \<and>
   filter is_upload (snd (finalize_for_shopify failing_upload_env demo_request))
     = [UploadStream ''tote-bag-designs'' ''1700000000000-mockup'' [2000, 1500],
        UploadStream ''tote-bag-designs'' ''1700000000000-logo'' [900, 600]] \<and>
   file negative_width_request
     = Some \<lparr>buffer = [900, 600], originalname = ''logo.png''\<rparr> \<and>
   fst (finalize_render sizes_env (input_color negative_width_request) [900, 600]
          (input_logoX negative_width_request) (input_logoY negative_width_request)
          (input_logoWidth negative_width_request) []) = None \<and>
   fst (finalize_for_shopify sizes_env negative_width_request)
     = Status 500 ''An error occurred while preparing your design for the cart.'' \<and>
   filter is_upload (snd (finalize_for_shopify sizes_env negative_width_request)) = []"
proof -
  let ?f = "\<lparr>buffer = [900, 600], originalname = ''logo.png''\<rparr>"
  let ?e = "failing_upload_env"
  let ?err = "Status 500 ''An error occurred while preparing your design for the cart.''"
  have n: "Number_toString 1700000000000 = ''1700000000000''"
    by (simp add: Number_toString.simps digit_char_def)
  have pid: "public_id 1700000000000 ''mockup.jpg'' = ''1700000000000-mockup''"
    "public_id 1700000000000 ''logo.png'' = ''1700000000000-logo''"
    by (simp_all add: public_id_def n path_name_def path_base_def)
  \<comment> \<open>the render succeeds and the upload of the logo fails\<close>
  have f1: "file demo_request = Some ?f" by (rule demo_request_inputs(1))
  define tr1 where "tr1 = snd (finalize_render ?e (input_color demo_request) (buffer ?f)
          (input_logoX demo_request) (input_logoY demo_request)
          (input_logoWidth demo_request) [])"
  have r1: "fst (finalize_render ?e (input_color demo_request) (buffer ?f)
          (input_logoX demo_request) (input_logoY demo_request)
          (input_logoWidth demo_request) []) = Some [2000, 1500]"
    by (simp add: finalize_render_pipeline demo_request_inputs run_defs
          failing_upload_env_def sized_metadata_def sized_toBuffer_def
          point_four_value round64_eval)
  from with_snd [OF r1] have h1: "finalize_render ?e (input_color demo_request) (buffer ?f)
          (input_logoX demo_request) (input_logoY demo_request)
          (input_logoWidth demo_request) [] = (Some [2000, 1500], tr1)"
    by (simp add: tr1_def)
  from publish_is_all_or_nothing [OF f1, of ?e tr1 "[2000, 1500]", THEN conjunct2] h1
  have c1: "filter is_upload tr1 = []"
    and c2: "snd (finalize_for_shopify ?e demo_request)
            = tr1 @ [UploadStream ''tote-bag-designs''
                      (public_id (Date_now ?e (length tr1)) ''mockup.jpg'') [2000, 1500],
                    UploadStream ''tote-bag-designs''
                      (public_id (Date_now ?e (Suc (length tr1))) (originalname ?f)) (buffer ?f)]"
    and c3: "fst (finalize_for_shopify ?e demo_request)
            = (case (cloudinary_upload ?e ''tote-bag-designs''
                       (public_id (Date_now ?e (length tr1)) ''mockup.jpg'') [2000, 1500],
                     cloudinary_upload ?e ''tote-bag-designs''
                       (public_id (Date_now ?e (Suc (length tr1))) (originalname ?f)) (buffer ?f))
               of (Some mockupUrl, Some originalLogoUrl) \<Rightarrow>
                    Published mockupUrl originalLogoUrl (input_color demo_request)
                      (input_logoX demo_request) (input_logoY demo_request)
                      (input_logoWidth demo_request)
                | _ \<Rightarrow> ?err)"
    by blast+
  have a1: "fst (finalize_for_shopify ?e demo_request) = ?err"
    unfolding c3 by (simp add: failing_upload_env_def logo_upload_fails_def demo_url_def)
  have a2: "filter is_upload (snd (finalize_for_shopify ?e demo_request))
     = [UploadStream ''tote-bag-designs'' ''1700000000000-mockup'' [2000, 1500],
        UploadStream ''tote-bag-designs'' ''1700000000000-logo'' [900, 600]]"
    unfolding c2 by (simp add: c1 failing_upload_env_def pid)
  \<comment> \<open>the render fails\<close>
  have f2: "file negative_width_request = Some ?f"
    and i2: "input_color negative_width_request = ''#FFFFFF''"
      "input_logoX negative_width_request = Finite 0"
      "input_logoY negative_width_request = Finite 175"
      "input_logoWidth negative_width_request = Finite (- 5)"
    by (simp_all add: negative_width_request_def input_color_def input_logoX_def
          input_logoY_def input_logoWidth_def parse_defs)
  define tr2 where "tr2 = snd (finalize_render sizes_env (input_color negative_width_request)
          (buffer ?f) (input_logoX negative_width_request)
          (input_logoY negative_width_request) (input_logoWidth negative_width_request) [])"
  have r2: "fst (finalize_render sizes_env (input_color negative_width_request) (buffer ?f)
          (input_logoX negative_width_request) (input_logoY negative_width_request)
          (input_logoWidth negative_width_request) []) = None"
    by (simp add: finalize_render_pipeline i2 run_defs sizes_defs)
  from with_snd [OF r2] have h2: "finalize_render sizes_env
          (input_color negative_width_request) (buffer ?f)
          (input_logoX negative_width_request) (input_logoY negative_width_request)
          (input_logoWidth negative_width_request) [] = (None, tr2)"
    by (simp add: tr2_def)
  from publish_is_all_or_nothing [OF f2, of sizes_env tr2, THEN conjunct1] h2
  have d: "finalize_for_shopify sizes_env negative_width_request = (?err, tr2)"
    "filter is_upload tr2 = []"
    by blast+
  have b1: "fst (finalize_for_shopify sizes_env negative_width_request) = ?err"
    and b2: "filter is_upload (snd (finalize_for_shopify sizes_env negative_width_request)) = []"
    by (simp_all add: d)
  from f1 r1 a1 a2 f2 r2 b1 b2 show ?thesis by simp
qed

end
